theory Spec2Isabelle
  imports Complex_Main
begin

section \<open>Shared data model\<close>

text \<open>
  The orchestrator of \<^verbatim>\<open>services/agent_service.py\<close> threads one dictionary, the
  \<^verbatim>\<open>AgentState\<close>, through the stages of a workflow run. The dictionaries of the source
  become records; a key that the source reads with \<^verbatim>\<open>.get(key, default)\<close> is an
  optional field, so that the default of the source is a branch of the model.
  Python integers are \<^typ>\<open>int\<close>, lengths are \<^typ>\<open>nat\<close>, and Python floats are
  idealised as \<^typ>\<open>real\<close>. Strings are lists of \<^typ>\<open>char\<close>; the source counts code
  points, the model counts characters of the list. A point in time
  (\<^verbatim>\<open>datetime.utcnow()\<close>) is a number of seconds, and the clock is an argument of
  every operation that reads it.
\<close>

type_synonym timestamp = real

datatype py_error =
    ValueError string
  | TypeError
  | AttributeError
  | OverflowError
  | KeyError
  | ValidationError
  | OtherError string

record keyword_dict =
  kw_keyword :: "string option"
  kw_relevance_score :: "real option"
  kw_context :: string

record weak_section =
  start_position :: int
  end_position :: int
  issue_type :: string
  severity :: string
  suggestion :: string
  confidence :: real

record user_profile =
  user_id :: string
  preferred_topics :: "string list"
  reading_level :: string
  writing_style :: string
  target_audience :: "string option"
  expertise_areas :: "string list"

record llm_analysis =
  an_keywords :: "keyword_dict list option"

record analysis_entry =
  ae_timestamp :: timestamp
  ae_analysis :: llm_analysis
  ae_draft_length :: "nat option"
  ae_weak_sections :: "weak_section list option"

record suggestion_entry =
  se_timestamp :: timestamp
  se_keywords :: "keyword_dict list option"
  se_context :: string
  se_refined_keywords :: "keyword_dict list option"

type_synonym score_dict = "(string \<times> real) list"

datatype response =
    EmptyResponse
  | Response "keyword_dict list" score_dict "weak_section list" string timestamp

record agent_state =
  session_id :: string
  user_profile :: "user_profile option"
  current_draft :: string
  cursor_position :: int
  previous_suggestions :: "suggestion_entry list"
  analysis_history :: "analysis_entry list"
  current_score :: score_dict
  iteration_count :: "int option"
  last_updated :: timestamp
  final_response :: "response option"

text \<open>
  The nodes rebuild the profile from the dictionary in the state with
  \<^verbatim>\<open>UserProfile(**state['user_profile']) if state['user_profile'] else None\<close>. The
  model class (models.py, lines 19--27 and 179--192) accepts only the listed reading levels
  and writing styles and raises a validation error otherwise.
\<close>

definition UserProfile :: "user_profile \<Rightarrow> py_error + user_profile" where
  "UserProfile d =
     (if reading_level d \<in> set [''beginner'', ''intermediate'', ''advanced'']
         \<and> writing_style d \<in> set [''casual'', ''formal'', ''technical'', ''creative'']
      then Inr d else Inl ValidationError)"

definition state_profile :: "agent_state \<Rightarrow> py_error + user_profile option" where
  "state_profile st =
     (case user_profile st of
        None \<Rightarrow> Inr None
      | Some d \<Rightarrow> (case UserProfile d of Inl e \<Rightarrow> Inl e | Inr p \<Rightarrow> Inr (Some p)))"

section \<open>The loop decision\<close>

text \<open>
  \<^verbatim>\<open>_content_changed_significantly\<close> and \<^verbatim>\<open>_should_iterate\<close>
  (agent\_service.py, lines 267--290). \<^verbatim>\<open>analysis_history[-2]\<close> is read only when
  the list has at least two entries.
\<close>

definition get_draft_length :: "analysis_entry \<Rightarrow> int" where
  "get_draft_length e = (case ae_draft_length e of None \<Rightarrow> 0 | Some n \<Rightarrow> int n)"

definition content_changed_significantly :: "agent_state \<Rightarrow> bool" where
  "content_changed_significantly st =
     (if length (analysis_history st) < 2 then False
      else
        let current_length = int (length (current_draft st));
            previous_length =
              get_draft_length (analysis_history st ! (length (analysis_history st) - 2));
            change_ratio =
              real_of_int \<bar>current_length - previous_length\<bar> / real_of_int (max previous_length 1)
        in change_ratio > 0.2)"

definition get_iteration_count :: "agent_state \<Rightarrow> int" where
  "get_iteration_count st = (case iteration_count st of None \<Rightarrow> 0 | Some n \<Rightarrow> n)"

definition should_iterate :: "agent_state \<Rightarrow> string" where
  "should_iterate st =
     (let max_iterations = 2;
          current_iterations = get_iteration_count st
      in if current_iterations < max_iterations
         then (if content_changed_significantly st then ''continue'' else ''end'')
         else ''end'')"

section \<open>The retry executor\<close>

text \<open>
  \<^verbatim>\<open>retry_with_exponential_backoff\<close> (utils/retry.py, lines 15--89). The wrapped
  coroutine is a black box that may answer differently at each call: \<open>func k\<close> is what its
  call number \<open>k\<close> (counted from 0) does. \<open>retryable\<close> says whether an exception is an
  instance of \<^verbatim>\<open>retry_exceptions\<close>; \<open>rnd k\<close> is the value \<^verbatim>\<open>random.random()\<close>
  returns in iteration \<open>k\<close>. A run returns what the call does, the number of calls made
  and the delays slept, in order.

  Two statements of the executor itself can raise, and what they raise leaves the function
  as it is, since both stand inside an exception handler or outside the \<^verbatim>\<open>try\<close>.
  \<^item> Every log message reads \<^verbatim>\<open>func.__name__\<close>. \<open>func_name\<close> is that attribute,
    \<open>None\<close> for a callable without it (a \<^verbatim>\<open>functools.partial\<close>, an instance with
    \<^verbatim>\<open>__call__\<close>). Without it the first message of the first iteration raises
    \<^verbatim>\<open>AttributeError\<close> inside the \<^verbatim>\<open>try\<close>; whichever handler catches it reads the
    attribute again for its own message, so the error leaves the function before
    \<^verbatim>\<open>func\<close> is called. With \<open>max_retries\<close> below 0 the loop is empty and the message
    of the final \<^verbatim>\<open>RetryError\<close> raises it.
  \<^item> \<^verbatim>\<open>exponential_base ** attempt\<close> raises \<^verbatim>\<open>OverflowError\<close> when the power is
    beyond the range of a float. The model takes the power over the reals and lets it
    overflow from \<open>2 ^ 1024 - 2 ^ 970\<close> on, the least magnitude that rounds to infinity.
    The expression is evaluated in the handler of a retryable failure that is not the last
    attempt, before the wait.
  The configuration holds finite floats.
\<close>

datatype ('a, 'e) outcome = Returns 'a | Raises 'e

datatype ('a, 'e) retry_result =
    Result 'a
  | Reraised 'e
  | RetryError "'e option"
  | ExecutorError py_error

record retry_config =
  max_retries :: int
  base_delay :: real
  max_delay :: real
  exponential_base :: real
  jitter :: bool

definition float_overflow_bound :: int where
  "float_overflow_bound = 2 ^ 1024 - 2 ^ 970"

definition pow_overflows :: "real \<Rightarrow> nat \<Rightarrow> bool" where
  "pow_overflows b n = (real_of_int float_overflow_bound \<le> \<bar>b ^ n\<bar>)"

definition retry_delay :: "retry_config \<Rightarrow> (nat \<Rightarrow> real) \<Rightarrow> nat \<Rightarrow> py_error + real" where
  "retry_delay cfg rnd attempt =
     (if pow_overflows (exponential_base cfg) attempt then Inl OverflowError
      else
        let delay = min (base_delay cfg * exponential_base cfg ^ attempt) (max_delay cfg)
        in Inr (if jitter cfg then delay * (0.5 + rnd attempt * 0.5) else delay))"

fun retry_loop ::
  "retry_config \<Rightarrow> ('e \<Rightarrow> bool) \<Rightarrow> string option \<Rightarrow> (nat \<Rightarrow> ('a, 'e) outcome) \<Rightarrow>
   (nat \<Rightarrow> real) \<Rightarrow> nat \<Rightarrow> nat \<Rightarrow> 'e option \<Rightarrow> real list \<Rightarrow>
   ('a, 'e) retry_result \<times> nat \<times> real list" where
  "retry_loop cfg retryable func_name func rnd 0 attempt last_exception slept =
     (if func_name = None then (ExecutorError AttributeError, attempt, slept)
      else (RetryError last_exception, attempt, slept))"
| "retry_loop cfg retryable func_name func rnd (Suc n) attempt last_exception slept =
     (if func_name = None then (ExecutorError AttributeError, attempt, slept)
      else
        case func attempt of
          Returns result \<Rightarrow> (Result result, Suc attempt, slept)
        | Raises e \<Rightarrow>
            if retryable e then
              (if int attempt = max_retries cfg
               then (RetryError (Some e), Suc attempt, slept)
               else
                 case retry_delay cfg rnd attempt of
                   Inl err \<Rightarrow> (ExecutorError err, Suc attempt, slept)
                 | Inr delay \<Rightarrow>
                     retry_loop cfg retryable func_name func rnd n (Suc attempt) (Some e)
                       (slept @ [delay]))
            else (Reraised e, Suc attempt, slept))"

definition retry_with_exponential_backoff ::
  "retry_config \<Rightarrow> ('e \<Rightarrow> bool) \<Rightarrow> string option \<Rightarrow> (nat \<Rightarrow> ('a, 'e) outcome) \<Rightarrow>
   (nat \<Rightarrow> real) \<Rightarrow> ('a, 'e) retry_result \<times> nat \<times> real list" where
  "retry_with_exponential_backoff cfg retryable func_name func rnd =
     retry_loop cfg retryable func_name func rnd (nat (max_retries cfg + 1)) 0 None []"

definition fails_retryably :: "('e \<Rightarrow> bool) \<Rightarrow> ('a, 'e) outcome \<Rightarrow> bool" where
  "fails_retryably retryable out = (case out of Returns _ \<Rightarrow> False | Raises e \<Rightarrow> retryable e)"

definition run_result :: "('a, 'e) retry_result \<times> nat \<times> real list \<Rightarrow> ('a, 'e) retry_result" where
  "run_result r = fst r"

definition run_attempts :: "('a, 'e) retry_result \<times> nat \<times> real list \<Rightarrow> nat" where
  "run_attempts r = fst (snd r)"


section \<open>Sessions\<close>

text \<open>
  \<^verbatim>\<open>start_session\<close>, \<^verbatim>\<open>update_draft\<close>, \<^verbatim>\<open>end_session\<close> and
  \<^verbatim>\<open>_calculate_average_score\<close> (agent\_service.py, lines 342--401 and 484--517) with
  the \<^verbatim>\<open>AgentSession\<close> model (models.py, lines 121--130). The orchestrator's
  \<^verbatim>\<open>active_sessions\<close> dictionary is a map, and every operation returns the orchestrator
  it leaves behind together with its result, so that an exception raised after a mutation
  keeps the mutation. The identifier drawn by \<^verbatim>\<open>uuid.uuid4()\<close> and the compiled
  workflow (\<^verbatim>\<open>self.workflow.ainvoke\<close>) are arguments: the workflow is any function from
  the initial run state to a final state or an exception.
\<close>

record realtime_score =
  overall_score :: real
  readability_score :: real
  relevance_score :: real
  engagement_score :: real
  seo_score :: real

record agent_session =
  as_session_id :: string
  as_user_profile :: user_profile
  as_current_draft :: string
  suggestion_history :: "response list"
  score_history :: "realtime_score list"
  created_at :: timestamp
  as_last_updated :: timestamp
  is_active :: bool

record session_summary =
  session_duration :: real
  total_suggestions :: nat
  final_draft_length :: nat
  average_score :: real

record orchestrator =
  active_sessions :: "string \<rightharpoonup> agent_session"

type_synonym workflow = "agent_state \<Rightarrow> py_error + agent_state"

definition initial_orchestrator :: orchestrator where
  "initial_orchestrator = \<lparr>active_sessions = Map.empty\<rparr>"

definition session_not_found :: "string \<Rightarrow> py_error" where
  "session_not_found sid = ValueError (''Session '' @ sid @ '' not found'')"

definition start_session ::
  "orchestrator \<Rightarrow> user_profile \<Rightarrow> string \<Rightarrow> timestamp \<Rightarrow> string \<times> orchestrator" where
  "start_session orch profile new_id now =
     (let session =
            \<lparr>as_session_id = new_id, as_user_profile = profile, as_current_draft = [],
             suggestion_history = [], score_history = [], created_at = now,
             as_last_updated = now, is_active = True\<rparr>
      in (new_id, orch\<lparr>active_sessions := (active_sessions orch)(new_id \<mapsto> session)\<rparr>))"

definition update_draft ::
  "orchestrator \<Rightarrow> workflow \<Rightarrow> string \<Rightarrow> string \<Rightarrow> int option \<Rightarrow> timestamp \<Rightarrow>
   (py_error + response) \<times> orchestrator" where
  "update_draft orch flow sid draft_text cursor now =
     (case active_sessions orch sid of
        None \<Rightarrow> (Inl (session_not_found sid), orch)
      | Some session0 \<Rightarrow>
          let session = session0\<lparr>as_current_draft := draft_text, as_last_updated := now\<rparr>;
              initial_state =
                \<lparr>session_id = sid, user_profile = Some (as_user_profile session),
                 current_draft = draft_text,
                 cursor_position = (case cursor of None \<Rightarrow> 0 | Some c \<Rightarrow> c),
                 previous_suggestions = [], analysis_history = [], current_score = [],
                 iteration_count = Some 0, last_updated = now, final_response = None\<rparr>
          in (case flow initial_state of
                Inl e \<Rightarrow> (Inl e, orch\<lparr>active_sessions := (active_sessions orch)(sid \<mapsto> session)\<rparr>)
              | Inr final_state \<Rightarrow>
                  let response =
                        (case final_response final_state of None \<Rightarrow> EmptyResponse | Some r \<Rightarrow> r);
                      session' =
                        session\<lparr>suggestion_history := suggestion_history session @ [response]\<rparr>
                  in (Inr response,
                      orch\<lparr>active_sessions := (active_sessions orch)(sid \<mapsto> session')\<rparr>)))"

definition calculate_average_score :: "realtime_score list \<Rightarrow> real" where
  "calculate_average_score history =
     (if history = [] then 0.0
      else sum_list (map overall_score history) / real (length history))"

definition end_session ::
  "orchestrator \<Rightarrow> string \<Rightarrow> timestamp \<Rightarrow> (py_error + session_summary) \<times> orchestrator" where
  "end_session orch sid now =
     (case active_sessions orch sid of
        None \<Rightarrow> (Inl (session_not_found sid), orch)
      | Some session \<Rightarrow>
          let summary =
                \<lparr>session_duration = now - created_at session,
                 total_suggestions = length (suggestion_history session),
                 final_draft_length = length (as_current_draft session),
                 average_score = calculate_average_score (score_history session)\<rparr>
          in (Inr summary, orch\<lparr>active_sessions := (active_sessions orch)(sid := None)\<rparr>))"

text \<open>The orchestrators that the three session operations can produce, from the empty one.\<close>

inductive reachable :: "orchestrator \<Rightarrow> bool" where
  reach_init: "reachable initial_orchestrator"
| reach_start: "reachable orch \<Longrightarrow> reachable (snd (start_session orch profile new_id now))"
| reach_update: "reachable orch \<Longrightarrow> reachable (snd (update_draft orch flow sid draft_text cursor now))"
| reach_end: "reachable orch \<Longrightarrow> reachable (snd (end_session orch sid now))"

section \<open>Python string operations\<close>

text \<open>
  \<^verbatim>\<open>str.find\<close>, \<^verbatim>\<open>str.split\<close> with a separator, the substring test
  \<^verbatim>\<open>sub in s\<close> and \<^verbatim>\<open>str.lower\<close> (on ASCII letters; other characters are left as they
  are). \<^verbatim>\<open>find\<close> answers the lowest index at which the substring starts, or \<open>-1\<close>.
  \<^verbatim>\<open>split\<close> scans from the left, cuts at each occurrence of the separator and resumes
  behind it; an empty separator raises \<^verbatim>\<open>ValueError\<close>.
\<close>

definition starts_with :: "string \<Rightarrow> string \<Rightarrow> bool" where
  "starts_with s sub = (take (length sub) s = sub)"

fun find_from :: "string \<Rightarrow> string \<Rightarrow> nat \<Rightarrow> int" where
  "find_from [] sub i = (if sub = [] then int i else - 1)"
| "find_from (c # cs) sub i =
     (if starts_with (c # cs) sub then int i else find_from cs sub (Suc i))"

definition py_find :: "string \<Rightarrow> string \<Rightarrow> int" where
  "py_find s sub = find_from s sub 0"

definition py_contains :: "string \<Rightarrow> string \<Rightarrow> bool" where
  "py_contains sub s = (py_find s sub \<noteq> - 1)"

function split_aux :: "string \<Rightarrow> string \<Rightarrow> string \<Rightarrow> string list" where
  "split_aux sep [] cur = [cur]"
| "split_aux sep (c # cs) cur =
     (if sep \<noteq> [] \<and> starts_with (c # cs) sep
      then cur # split_aux sep (drop (length sep) (c # cs)) []
      else split_aux sep cs (cur @ [c]))"
  by pat_completeness auto
termination
  by (relation "measure (\<lambda>(sep, s, cur). length s)") (auto simp: neq_Nil_conv)

definition py_split :: "string \<Rightarrow> string \<Rightarrow> py_error + string list" where
  "py_split s sep =
     (if sep = [] then Inl (ValueError ''empty separator'') else Inr (split_aux sep s []))"

fun py_join :: "string \<Rightarrow> string list \<Rightarrow> string" where
  "py_join sep [] = []"
| "py_join sep [x] = x"
| "py_join sep (x # y # ys) = x @ sep @ py_join sep (y # ys)"

definition lower_char :: "char \<Rightarrow> char" where
  "lower_char c =
     (case map_of (zip ''ABCDEFGHIJKLMNOPQRSTUVWXYZ'' ''abcdefghijklmnopqrstuvwxyz'') c of
        None \<Rightarrow> c
      | Some l \<Rightarrow> l)"

definition py_lower :: "string \<Rightarrow> string" where
  "py_lower s = map lower_char s"

section \<open>The IdentifyWeaknesses stage\<close>

text \<open>
  \<^verbatim>\<open>_identify_weaknesses_node\<close> (agent\_service.py, lines 185--211). The loop appends
  one weak section for each segment shorter than 10 characters; the list is stored in the
  latest analysis-history entry when there is one. An exception inside the body returns
  the state as it is.
\<close>

definition short_sentence_section :: "string \<Rightarrow> string \<Rightarrow> weak_section" where
  "short_sentence_section content sentence =
     \<lparr>start_position = py_find content sentence,
      end_position = py_find content sentence + int (length sentence),
      issue_type = ''sentence_too_short'',
      severity = ''medium'',
      suggestion = ''Consider expanding this sentence with more detail'',
      confidence = 0.7\<rparr>"

fun weak_sections_loop :: "string \<Rightarrow> string list \<Rightarrow> weak_section list \<Rightarrow> weak_section list" where
  "weak_sections_loop content [] weak_sections = weak_sections"
| "weak_sections_loop content (sentence # rest) weak_sections =
     weak_sections_loop content rest
       (if length sentence < 10
        then weak_sections @ [short_sentence_section content sentence]
        else weak_sections)"

definition set_last_weak_sections :: "analysis_entry list \<Rightarrow> weak_section list \<Rightarrow> analysis_entry list" where
  "set_last_weak_sections history ws =
     (if history = [] then history
      else butlast history @ [(last history)\<lparr>ae_weak_sections := Some ws\<rparr>])"

definition identify_weaknesses_node :: "agent_state \<Rightarrow> agent_state" where
  "identify_weaknesses_node st =
     (let content = current_draft st
      in case py_split content ''. '' of
           Inl e \<Rightarrow> st
         | Inr sentences \<Rightarrow>
             let weak_sections = weak_sections_loop content sentences []
             in st\<lparr>analysis_history := set_last_weak_sections (analysis_history st) weak_sections\<rparr>)"

text \<open>What the claims say about positions: a substring occurs at an index, and first there.\<close>

definition occurs_at :: "string \<Rightarrow> string \<Rightarrow> nat \<Rightarrow> bool" where
  "occurs_at s sub i = (i + length sub \<le> length s \<and> take (length sub) (drop i s) = sub)"

definition first_occurrence :: "string \<Rightarrow> string \<Rightarrow> nat \<Rightarrow> bool" where
  "first_occurrence s sub i = (occurs_at s sub i \<and> (\<forall>j<i. \<not> occurs_at s sub j))"

definition latest_weak_sections :: "agent_state \<Rightarrow> weak_section list option" where
  "latest_weak_sections st =
     (if analysis_history st = [] then None else ae_weak_sections (last (analysis_history st)))"

section \<open>The scoring engine\<close>

text \<open>
  \<^verbatim>\<open>BlogScoringService\<close> (services/scoring\_service.py). The arithmetic of every
  sub-score is modelled as written, over the reals. The calls into Python's regular
  expression library are arguments, collected in one record: each field stands for one
  call of the source with its pattern fixed, and the properties below hold whatever
  these calls return.
\<close>

record regex_lib =
  findall_words :: "string \<Rightarrow> string list"
    \<comment> \<open>\<^verbatim>\<open>re.findall(r'\b[a-zA-Z]+\b', s)\<close>\<close>
  split_sentences :: "string \<Rightarrow> string list"
    \<comment> \<open>\<^verbatim>\<open>re.split(r'[.!?]+', s)\<close>\<close>
  count_headings :: "string \<Rightarrow> nat"
    \<comment> \<open>\<^verbatim>\<open>len(re.findall(r'\n[A-Z][^.\n]*\n', s))\<close>\<close>
  match_title :: "string \<Rightarrow> bool"
    \<comment> \<open>\<^verbatim>\<open>bool(re.match(r'^.{10,60}$', s))\<close>\<close>
  search_lists :: "string \<Rightarrow> bool"
    \<comment> \<open>\<^verbatim>\<open>bool(re.search(r'^\s*[\-\*\d+\.]\s+', s, re.MULTILINE))\<close>\<close>
  search_emphasis :: "string \<Rightarrow> bool"
    \<comment> \<open>\<^verbatim>\<open>bool(re.search(r'\*\*.*?\*\*|__.*?__|_.*?_|\*.*?\*', s))\<close>\<close>
  count_questions :: "string \<Rightarrow> nat"
    \<comment> \<open>\<^verbatim>\<open>len(re.findall(r'\?', s))\<close>\<close>
  count_phrase :: "string \<Rightarrow> string \<Rightarrow> nat"
    \<comment> \<open>\<^verbatim>\<open>len(re.findall(r'\b' + phrase + r'\b', s, re.IGNORECASE))\<close>\<close>

text \<open>
  \<^verbatim>\<open>round(x, 2)\<close>: to the nearest multiple of 0.01, a tie going to the even one.
\<close>

definition py_round2 :: "real \<Rightarrow> real" where
  "py_round2 x =
     (let y = x * 100; f = \<lfloor>y\<rfloor>; d = y - of_int f
      in (if d < 1 / 2 then of_int f
          else if 1 / 2 < d then of_int f + 1
          else if even f then of_int f else of_int f + 1) / 100)"

text \<open>\<^verbatim>\<open>str.isspace\<close> on ASCII, \<^verbatim>\<open>str.strip()\<close> and \<^verbatim>\<open>str.split()\<close> without argument.\<close>

definition is_space :: "char \<Rightarrow> bool" where
  "is_space c =
     (c \<in> set [CHR 0x09, CHR 0x0A, CHR 0x0B, CHR 0x0C, CHR 0x0D, CHR 0x1C, CHR 0x1D, CHR 0x1E,
                CHR 0x1F, CHR 0x20])"

definition py_strip :: "string \<Rightarrow> string" where
  "py_strip s = rev (dropWhile is_space (rev (dropWhile is_space s)))"

fun words_aux :: "string \<Rightarrow> string \<Rightarrow> string list" where
  "words_aux [] cur = (if cur = [] then [] else [cur])"
| "words_aux (c # cs) cur =
     (if is_space c then (if cur = [] then words_aux cs [] else cur # words_aux cs [])
      else words_aux cs (cur @ [c]))"

definition py_words :: "string \<Rightarrow> string list" where
  "py_words s = words_aux s []"

definition newline :: char where
  "newline = CHR 0x0A"

definition blank_line :: string where
  "blank_line = [newline, newline]"

definition common_words :: "string list" where
  "common_words =
     [''the'', ''a'', ''an'', ''and'', ''or'', ''but'', ''in'', ''on'', ''at'', ''to'', ''for'', ''of'',
      ''with'', ''by'', ''is'', ''are'', ''was'', ''were'', ''be'', ''been'', ''being'', ''have'',
      ''has'', ''had'', ''do'', ''does'', ''did'', ''will'', ''would'', ''could'', ''should'', ''may'',
      ''might'', ''must'', ''can'', ''this'', ''that'', ''these'', ''those'', ''i'', ''you'', ''he'',
      ''she'', ''it'', ''we'', ''they'']"

definition extract_words :: "regex_lib \<Rightarrow> string \<Rightarrow> string list" where
  "extract_words rx text =
     filter (\<lambda>word. word \<notin> set common_words) (findall_words rx (py_lower text))"

definition extract_potential_keywords :: "regex_lib \<Rightarrow> string \<Rightarrow> string list" where
  "extract_potential_keywords rx text = filter (\<lambda>word. length word > 3) (extract_words rx text)"

definition count_sentences :: "regex_lib \<Rightarrow> string \<Rightarrow> nat" where
  "count_sentences rx text = length (filter (\<lambda>s. py_strip s \<noteq> []) (split_sentences rx text))"

fun syllable_loop :: "string \<Rightarrow> bool \<Rightarrow> nat \<Rightarrow> nat" where
  "syllable_loop [] prev_char_was_vowel syllable_count = syllable_count"
| "syllable_loop (c # cs) prev_char_was_vowel syllable_count =
     (let is_vowel = (c \<in> set ''aeiouy'')
      in syllable_loop cs is_vowel
           (if is_vowel \<and> \<not> prev_char_was_vowel then syllable_count + 1 else syllable_count))"

definition ends_with :: "string \<Rightarrow> string \<Rightarrow> bool" where
  "ends_with s suffix = (length suffix \<le> length s \<and> drop (length s - length suffix) s = suffix)"

definition count_syllables :: "string \<Rightarrow> nat" where
  "count_syllables word0 =
     (let word = py_lower word0;
          syllable_count = syllable_loop word False 0;
          syllable_count' =
            (if ends_with word ''e'' \<and> syllable_count > 1 then syllable_count - 1
             else syllable_count)
      in max 1 syllable_count')"

text \<open>The number of the given strings that occur in the text.\<close>

definition count_present :: "string list \<Rightarrow> string \<Rightarrow> nat" where
  "count_present indicators text = length (filter (\<lambda>w. py_contains w text) indicators)"

definition topic_matches :: "string list \<Rightarrow> string \<Rightarrow> nat" where
  "topic_matches topics content =
     length (filter (\<lambda>topic. py_contains (py_lower topic) (py_lower content)) topics)"

definition mean :: "real list \<Rightarrow> real" where
  "mean xs = sum_list xs / real (length xs)"

definition split_on :: "string \<Rightarrow> string \<Rightarrow> string list" where
  "split_on s sep = split_aux sep s []"

definition first_piece :: "string \<Rightarrow> string \<Rightarrow> string" where
  "first_piece s sep = (case split_on s sep of [] \<Rightarrow> [] | piece # _ \<Rightarrow> piece)"

definition calculate_keyword_relevance :: "regex_lib \<Rightarrow> string \<Rightarrow> user_profile option \<Rightarrow> real" where
  "calculate_keyword_relevance rx content profile =
     (let words = extract_words rx content;
          total_words = length words
      in if total_words = 0 then 0.0
         else
           let content_keywords = extract_potential_keywords rx content;
               keyword_density = real (length content_keywords) / real total_words * 100;
               density_score0 = 100 * (1 - \<bar>keyword_density - 2\<bar> / 10);
               density_score = max 0 (min 100 density_score0);
               unique_keywords = length (remdups content_keywords);
               variety_score = min 100 (real unique_keywords * 5);
               profile_relevance =
                 (case profile of
                    None \<Rightarrow> 50
                  | Some p \<Rightarrow>
                      if preferred_topics p = [] then 50
                      else min 100 (real (topic_matches (preferred_topics p) content) * 25));
               keyword_score =
                 density_score * 0.4 + variety_score * 0.35 + profile_relevance * 0.25
           in py_round2 keyword_score)"

definition paragraph_sentence_score :: "nat \<Rightarrow> real" where
  "paragraph_sentence_score sentence_count =
     (if 3 \<le> sentence_count \<and> sentence_count \<le> 8 then 100
      else if sentence_count < 3 then real sentence_count * 33.3
      else max 0 (100 - (real sentence_count - 8) * 10))"

definition calculate_paragraph_structure_score :: "regex_lib \<Rightarrow> string \<Rightarrow> real" where
  "calculate_paragraph_structure_score rx content =
     (let paragraphs = map py_strip (filter (\<lambda>p. py_strip p \<noteq> []) (split_on content blank_line))
      in if paragraphs = [] then 0.0
         else mean (map (\<lambda>para. paragraph_sentence_score (count_sentences rx para)) paragraphs))"

definition calculate_punctuation_score :: "regex_lib \<Rightarrow> string \<Rightarrow> real" where
  "calculate_punctuation_score rx content =
     (let punctuation_marks = ''.,;:!?'';
          word_count = length (extract_words rx content)
      in if word_count = 0 then 0.0
         else
           let punct_count = sum_list (map (\<lambda>mark. count_list content mark) punctuation_marks);
               punct_ratio = real punct_count / real word_count
           in if 0.1 \<le> punct_ratio \<and> punct_ratio \<le> 0.3 then 100.0
              else if punct_ratio < 0.1 then (punct_ratio / 0.1) * 100
              else max 0 (100 - (punct_ratio - 0.3) * 200))"

definition calculate_word_complexity_score :: "string list \<Rightarrow> real" where
  "calculate_word_complexity_score words =
     (if words = [] then 0.0
      else
        let avg_length = real (sum_list (map length words)) / real (length words)
        in if 4 \<le> avg_length \<and> avg_length \<le> 7 then 100.0
           else if avg_length < 4 then (avg_length / 4) * 100
           else max 0 (100 - (avg_length - 7) * 20))"

definition flesch_score :: "nat \<Rightarrow> nat \<Rightarrow> nat \<Rightarrow> real" where
  "flesch_score sentences word_total syllables =
     (let avg_sentence_length = real word_total / real sentences;
          avg_syllables_per_word = real syllables / real word_total;
          flesch = 206.835 - (1.015 * avg_sentence_length) - (84.6 * avg_syllables_per_word)
      in max 0 (min 100 flesch))"

definition target_adjustment :: "user_profile option \<Rightarrow> real \<Rightarrow> real" where
  "target_adjustment profile flesch =
     (case profile of
        None \<Rightarrow> 0
      | Some p \<Rightarrow>
          if reading_level p = [] then 0
          else if reading_level p = ''beginner'' \<and> flesch < 60 then (60 - flesch) * 0.5
          else if reading_level p = ''advanced'' \<and> flesch > 40 then (flesch - 40) * 0.3
          else 0)"

definition calculate_readability_score :: "regex_lib \<Rightarrow> string \<Rightarrow> user_profile option \<Rightarrow> real" where
  "calculate_readability_score rx content profile =
     (let sentences = count_sentences rx content;
          words = extract_words rx content;
          syllables = sum_list (map count_syllables words)
      in if sentences = 0 \<or> length words = 0 then 0.0
         else
           let flesch = flesch_score sentences (length words) syllables;
               paragraph_score = calculate_paragraph_structure_score rx content;
               punctuation_score = calculate_punctuation_score rx content;
               word_complexity_score = calculate_word_complexity_score words;
               readability_score =
                 flesch * 0.5 + paragraph_score * 0.2 + punctuation_score * 0.15
                   + word_complexity_score * 0.15 + target_adjustment profile flesch
           in py_round2 (max 0 (min 100 readability_score)))"

definition calculate_style_alignment :: "string \<Rightarrow> string \<Rightarrow> real" where
  "calculate_style_alignment content style =
     (let content_lower = py_lower content
      in if style = ''formal'' then
           (let formal_indicators =
                  [''therefore'', ''furthermore'', ''however'', ''moreover'', ''consequently''];
                informal_indicators = [''don't'', ''won't'', ''can't'', ''it's'', ''we're''];
                formal_count = count_present formal_indicators content_lower;
                informal_count = count_present informal_indicators content_lower
            in max 0 (50 + real formal_count * 10 - real informal_count * 5))
         else if style = ''casual'' then
           (let casual_indicators =
                  [''don't'', ''won't'', ''can't'', ''it's'', ''we're'', ''you'll'', ''i'll''];
                formal_indicators = [''therefore'', ''furthermore'', ''however'', ''moreover''];
                casual_count = count_present casual_indicators content_lower;
                formal_count = count_present formal_indicators content_lower
            in max 0 (50 + real casual_count * 8 - real formal_count * 5))
         else if style = ''technical'' then
           (let tech_indicators =
                  [''algorithm'', ''implementation'', ''methodology'', ''analysis'', ''optimization''];
                tech_count = count_present tech_indicators content_lower
            in min 100 (50 + real tech_count * 15))
         else if style = ''creative'' then
           (let creative_indicators = [''imagine'', ''picture'', ''story'', ''metaphor'', ''analogy''];
                creative_count = count_present creative_indicators content_lower
            in min 100 (50 + real creative_count * 12))
         else 50.0)"

definition audience_keywords :: "(string \<times> string list) list" where
  "audience_keywords =
     [(''beginner'', [''learn'', ''start'', ''basic'', ''simple'', ''easy'', ''introduction'']),
      (''professional'', [''strategy'', ''business'', ''professional'', ''industry'', ''market'']),
      (''technical'',
         [''technical'', ''system'', ''implementation'', ''configuration'', ''development'']),
      (''academic'', [''research'', ''study'', ''analysis'', ''theory'', ''methodology'']),
      (''general'', [''help'', ''guide'', ''tips'', ''advice'', ''useful''])]"

fun audience_loop :: "(string \<times> string list) list \<Rightarrow> string \<Rightarrow> string \<Rightarrow> real \<Rightarrow> real" where
  "audience_loop [] content_lower target best_match_score = best_match_score"
| "audience_loop ((audience_type, keywords) # rest) content_lower target best_match_score =
     (let matches = count_present keywords content_lower;
          match_score = min 100 (real matches * 20)
      in audience_loop rest content_lower target
           (if py_contains (py_lower target) audience_type then max best_match_score match_score
            else if audience_type = ''general'' then max best_match_score (match_score * 0.7)
            else best_match_score))"

definition calculate_audience_alignment :: "string \<Rightarrow> string \<Rightarrow> real" where
  "calculate_audience_alignment content target =
     audience_loop audience_keywords (py_lower content) target 0"

definition calculate_user_profile_alignment :: "string \<Rightarrow> user_profile option \<Rightarrow> real" where
  "calculate_user_profile_alignment content profile =
     (case profile of
        None \<Rightarrow> 50.0
      | Some p \<Rightarrow>
          let topic_scores =
                (if preferred_topics p = [] then []
                 else [min 100 (real (topic_matches (preferred_topics p) content)
                                  / real (length (preferred_topics p)) * 100)]);
              style_scores = [calculate_style_alignment content (writing_style p)];
              expertise_scores =
                (if expertise_areas p = [] then []
                 else [min 100 (real (topic_matches (expertise_areas p) content)
                                  / real (length (expertise_areas p)) * 100)]);
              audience_scores =
                (case target_audience p of
                   None \<Rightarrow> []
                 | Some target \<Rightarrow>
                     if target = [] then [] else [calculate_audience_alignment content target]);
              alignment_scores = topic_scores @ style_scores @ expertise_scores @ audience_scores
          in if alignment_scores = [] then 50.0 else py_round2 (mean alignment_scores))"

definition calculate_content_structure_score :: "regex_lib \<Rightarrow> string \<Rightarrow> real" where
  "calculate_content_structure_score rx content =
     (let paragraphs = split_on content blank_line;
          paragraph_count = length (filter (\<lambda>p. py_strip p \<noteq> []) paragraphs);
          para_score =
            (if 3 \<le> paragraph_count \<and> paragraph_count \<le> 8 then 100
             else if paragraph_count < 3 then max 0 (real paragraph_count * 33.3)
             else max 0 (100 - (real paragraph_count - 8) * 10));
          sentences =
            map py_strip (filter (\<lambda>s. py_strip s \<noteq> []) (split_sentences rx content));
          sentence_scores =
            (if sentences = [] then []
             else
               let sentence_lengths = map (\<lambda>s. length (py_words s)) sentences;
                   avg_length = real (sum_list sentence_lengths) / real (length sentence_lengths);
                   length_variety =
                     real (length (remdups sentence_lengths)) / real (length sentence_lengths);
                   length_score0 = 100 * (1 - \<bar>avg_length - 20\<bar> / 20);
                   length_score = max 0 (min 100 length_score0);
                   variety_score = length_variety * 100
               in [length_score, variety_score]);
          heading_indicators = count_headings rx content;
          heading_score = min 100 (real heading_indicators * 25);
          structure_scores = [para_score] @ sentence_scores @ [heading_score]
      in py_round2 (mean structure_scores))"

definition count_true :: "bool list \<Rightarrow> nat" where
  "count_true bs = length (filter (\<lambda>b. b) bs)"

definition calculate_seo_score :: "regex_lib \<Rightarrow> string \<Rightarrow> real" where
  "calculate_seo_score rx content =
     (let word_count = length (extract_words rx content);
          length_score =
            (if 800 \<le> word_count \<and> word_count \<le> 2000 then 100
             else if word_count < 800 then (real word_count / 800) * 100
             else max 0 (100 - (real word_count - 2000) / 100));
          keywords = extract_potential_keywords rx content;
          keyword_density = (real (length keywords) / real (max 1 word_count)) * 100;
          density_score =
            (if 1 \<le> keyword_density \<and> keyword_density \<le> 3 then 100
             else max 0 (100 - \<bar>keyword_density - 2\<bar> * 25));
          has_title_like = match_title rx (first_piece content [newline]);
          has_intro =
            (if py_contains blank_line content then length (first_piece content blank_line) > 100
             else False);
          has_conclusion =
            (py_contains ''conclusion'' (py_lower content) \<or> py_contains ''summary'' (py_lower content));
          meta_score = real (count_true [has_title_like, has_intro, has_conclusion]) * 33.3;
          has_lists = search_lists rx content;
          has_emphasis = search_emphasis rx content;
          structure_score = real (count_true [has_lists, has_emphasis]) * 50;
          seo_factors = [length_score, density_score, meta_score, structure_score]
      in py_round2 (mean seo_factors))"

definition cta_patterns :: "string list" where
  "cta_patterns =
     [''share'', ''comment'', ''subscribe'', ''follow'', ''try'', ''start'', ''learn more'',
      ''click here'']"

definition positive_words :: "string list" where
  "positive_words =
     [''amazing'', ''excellent'', ''fantastic'', ''great'', ''wonderful'', ''inspiring'',
      ''motivating'', ''exciting'', ''incredible'', ''outstanding'']"

definition negative_words :: "string list" where
  "negative_words =
     [''problem'', ''challenge'', ''difficult'', ''struggle'', ''issue'', ''mistake'', ''error'',
      ''failure'', ''wrong'', ''bad'']"

definition personal_pronouns :: "string list" where
  "personal_pronouns = [''you'', ''your'', ''we'', ''our'', ''us'', ''i'', ''my'']"

definition calculate_engagement_score :: "regex_lib \<Rightarrow> string \<Rightarrow> real" where
  "calculate_engagement_score rx content =
     (let question_count = count_questions rx content;
          word_count = length (extract_words rx content);
          question_ratio = real question_count / max 1 (real word_count / 100);
          question_score = min 100 (question_ratio * 50);
          cta_count = sum_list (map (\<lambda>pattern. count_phrase rx pattern content) cta_patterns);
          cta_score = min 100 (real cta_count * 25);
          content_lower = py_lower content;
          positive_count = count_present positive_words content_lower;
          negative_count = count_present negative_words content_lower;
          emotional_score = min 100 (real (positive_count + negative_count) * 10);
          pronoun_count =
            sum_list (map (\<lambda>pronoun. count_phrase rx pronoun content) personal_pronouns);
          pronoun_score = min 100 (real pronoun_count * 5);
          engagement_factors = [question_score, cta_score, emotional_score, pronoun_score]
      in py_round2 (mean engagement_factors))"

text \<open>
  \<^verbatim>\<open>ScoreBreakdown\<close> (models.py, lines 141--148): every field is declared with
  \<^verbatim>\<open>ge=0.0, le=100.0\<close>, so constructing the model with a value outside that range raises
  a validation error.
\<close>

record score_breakdown =
  keyword_relevance :: real
  readability :: real
  user_profile_alignment :: real
  content_structure :: real
  seo_optimization :: real
  engagement_potential :: real

definition in_score_range :: "real \<Rightarrow> bool" where
  "in_score_range x = (0 \<le> x \<and> x \<le> 100)"

definition ScoreBreakdown ::
  "real \<Rightarrow> real \<Rightarrow> real \<Rightarrow> real \<Rightarrow> real \<Rightarrow> real \<Rightarrow> py_error + score_breakdown" where
  "ScoreBreakdown k r p s seo e =
     (if in_score_range k \<and> in_score_range r \<and> in_score_range p \<and> in_score_range s
         \<and> in_score_range seo \<and> in_score_range e
      then Inr \<lparr>keyword_relevance = k, readability = r, user_profile_alignment = p,
                content_structure = s, seo_optimization = seo, engagement_potential = e\<rparr>
      else Inl ValidationError)"

definition breakdown_dict :: "score_breakdown \<Rightarrow> score_dict" where
  "breakdown_dict b =
     [(''keyword_relevance'', keyword_relevance b),
      (''readability'', readability b),
      (''user_profile_alignment'', user_profile_alignment b),
      (''content_structure'', content_structure b),
      (''seo_optimization'', seo_optimization b),
      (''engagement_potential'', engagement_potential b)]"

definition score_weights :: "(string \<times> real) list" where
  "score_weights =
     [(''keyword_relevance'', 0.25), (''readability'', 0.20), (''user_profile_alignment'', 0.15),
      (''content_structure'', 0.15), (''seo_optimization'', 0.15), (''engagement_potential'', 0.10)]"

definition getattr_score :: "score_breakdown \<Rightarrow> string \<Rightarrow> real" where
  "getattr_score b field = (case map_of (breakdown_dict b) field of None \<Rightarrow> 0 | Some v \<Rightarrow> v)"

definition weighted_sum :: "score_breakdown \<Rightarrow> real" where
  "weighted_sum b = sum_list (map (\<lambda>(field, weight). getattr_score b field * weight) score_weights)"

definition generate_recommendations ::
  "regex_lib \<Rightarrow> score_breakdown \<Rightarrow> string \<Rightarrow> user_profile option \<Rightarrow> string list" where
  "generate_recommendations rx breakdown content profile =
     (let keyword_recs =
            (if keyword_relevance breakdown < 60 then
               [''Consider adding more relevant keywords related to your main topic''] @
               (case profile of
                  None \<Rightarrow> []
                | Some p \<Rightarrow>
                    if preferred_topics p = [] then []
                    else [''Include keywords related to: ''
                            @ py_join '', '' (take 3 (preferred_topics p))])
             else []);
          readability_recs =
            (if readability breakdown < 60 then
               [''Improve readability by using shorter sentences and simpler words'',
                ''Break up long paragraphs into smaller, more digestible chunks'']
             else []);
          structure_recs =
            (if content_structure breakdown < 60 then
               [''Improve content structure with clear headings and logical flow'',
                ''Ensure paragraphs are 3-8 sentences long for optimal readability'']
             else []);
          seo_recs =
            (if seo_optimization breakdown < 60 then
               (if length (extract_words rx content) < 800
                then [''Consider expanding content to 800-2000 words for better SEO'']
                else []) @
               [''Add meta descriptions, headings, and optimize keyword density'']
             else []);
          engagement_recs =
            (if engagement_potential breakdown < 60 then
               [''Add questions to encourage reader engagement'',
                ''Include calls-to-action to drive user interaction'',
                ''Use more personal pronouns (you, we, us) to connect with readers'']
             else []);
          profile_recs =
            (case profile of
               None \<Rightarrow> []
             | Some p \<Rightarrow>
                 if user_profile_alignment breakdown < 60 then
                   (if writing_style p = ''formal''
                    then [''Use more formal language and avoid contractions'']
                    else if writing_style p = ''casual''
                    then [''Adopt a more conversational tone with contractions and informal language'']
                    else []) @
                   (if reading_level p = ''beginner''
                    then [''Simplify vocabulary and explain technical terms'']
                    else if reading_level p = ''advanced''
                    then [''Include more sophisticated vocabulary and complex concepts'']
                    else [])
                 else [])
      in take 8 (keyword_recs @ readability_recs @ structure_recs @ seo_recs
                   @ engagement_recs @ profile_recs))"

record score_result =
  sr_overall_score :: real
  sr_breakdown :: score_dict
  sr_recommendations :: "string list"
  sr_analysis_timestamp :: timestamp

text \<open>
  \<^verbatim>\<open>calculate_comprehensive_score\<close> (lines 48--103): the six sub-scores, the validated
  breakdown, the weighted sum rounded to two places. An exception is logged and raised
  again; the only one the model can raise is the validation error of the breakdown.
\<close>

definition calculate_comprehensive_score ::
  "regex_lib \<Rightarrow> string \<Rightarrow> user_profile option \<Rightarrow> timestamp \<Rightarrow> py_error + score_result" where
  "calculate_comprehensive_score rx content profile now =
     (let keyword_score = calculate_keyword_relevance rx content profile;
          readability_score = calculate_readability_score rx content profile;
          profile_score = calculate_user_profile_alignment content profile;
          structure_score = calculate_content_structure_score rx content;
          seo_score = calculate_seo_score rx content;
          engagement_score = calculate_engagement_score rx content
      in case ScoreBreakdown keyword_score readability_score profile_score structure_score
                seo_score engagement_score of
           Inl e \<Rightarrow> Inl e
         | Inr breakdown \<Rightarrow>
             let overall_score = weighted_sum breakdown;
                 recommendations = generate_recommendations rx breakdown content profile
             in Inr \<lparr>sr_overall_score = py_round2 overall_score,
                     sr_breakdown = breakdown_dict breakdown,
                     sr_recommendations = recommendations,
                     sr_analysis_timestamp = now\<rparr>)"

section \<open>The ScoreContent and RefineSuggestions stages\<close>

text \<open>
  \<^verbatim>\<open>_score_content_node\<close> (agent\_service.py, lines 166--183) stores the breakdown
  dictionary of the scoring engine as the current score; an exception leaves the state as
  it is. \<^verbatim>\<open>_contextual_refinement\<close> (lines 316--340) reads two keys of the current score
  with the default 70, rewrites the relevance of every keyword dictionary, sorts them by
  relevance with the largest first (Python's sort is stable, also with
  \<^verbatim>\<open>reverse=True\<close>) and keeps the first 10.
\<close>

definition score_content_node :: "regex_lib \<Rightarrow> agent_state \<Rightarrow> timestamp \<Rightarrow> agent_state" where
  "score_content_node rx st now =
     (case state_profile st of
        Inl e \<Rightarrow> st
      | Inr profile \<Rightarrow>
          (case calculate_comprehensive_score rx (current_draft st) profile now of
             Inl e \<Rightarrow> st
           | Inr score_result \<Rightarrow> st\<lparr>current_score := sr_breakdown score_result\<rparr>))"

definition score_get :: "score_dict \<Rightarrow> string \<Rightarrow> real \<Rightarrow> real" where
  "score_get d key dflt = (case map_of d key of None \<Rightarrow> dflt | Some v \<Rightarrow> v)"

definition keyword_text :: "keyword_dict \<Rightarrow> string" where
  "keyword_text keyword = (case kw_keyword keyword of None \<Rightarrow> [] | Some k \<Rightarrow> k)"

definition any_term_in :: "string list \<Rightarrow> string \<Rightarrow> bool" where
  "any_term_in terms text = list_ex (\<lambda>t. py_contains t text) terms"

definition refine_keyword :: "score_dict \<Rightarrow> keyword_dict \<Rightarrow> keyword_dict" where
  "refine_keyword current keyword =
     (let relevance = (case kw_relevance_score keyword of None \<Rightarrow> 0.5 | Some r \<Rightarrow> r);
          relevance1 =
            (if score_get current ''readability'' 70 < 60
                \<and> any_term_in [''simple'', ''clear'', ''easy''] (py_lower (keyword_text keyword))
             then relevance * 1.3 else relevance);
          relevance2 =
            (if score_get current ''seo'' 70 < 60
                \<and> any_term_in [''keyword'', ''search'', ''optimize''] (py_lower (keyword_text keyword))
             then relevance1 * 1.2 else relevance1)
      in keyword\<lparr>kw_relevance_score := Some (min 1.0 relevance2)\<rparr>)"

definition sort_relevance :: "keyword_dict \<Rightarrow> real" where
  "sort_relevance keyword = (case kw_relevance_score keyword of None \<Rightarrow> 0 | Some r \<Rightarrow> r)"

definition contextual_refinement ::
  "keyword_dict list \<Rightarrow> string \<Rightarrow> int \<Rightarrow> score_dict \<Rightarrow> keyword_dict list" where
  "contextual_refinement keywords content cursor current =
     (let refined_keywords = map (refine_keyword current) keywords;
          sorted_keywords = sort_key (\<lambda>x. - sort_relevance x) refined_keywords
      in take 10 sorted_keywords)"

section \<open>The AnalyzeDraft stage\<close>

text \<open>
  \<^verbatim>\<open>_get_cursor_context\<close> and \<^verbatim>\<open>_analyze_draft_node\<close> (agent\_service.py, lines
  112--136 and 292--296). The language model service is an argument: \<open>llm k\<close> is what call
  number \<open>k\<close> of \<^verbatim>\<open>recommend_keywords\<close> does with its three arguments. The stage is given
  the number of calls made so far and returns the new number with the new state. Every
  exception inside the stage, also that of an invalid profile, is caught and the state is
  returned as it is.
\<close>

definition py_slice :: "string \<Rightarrow> int \<Rightarrow> int \<Rightarrow> string" where
  "py_slice s start stop =
     (let n = int (length s);
          a = (if start < 0 then max 0 (n + start) else min start n);
          b = (if stop < 0 then max 0 (n + stop) else min stop n)
      in take (nat (b - a)) (drop (nat a) s))"

definition get_cursor_context :: "string \<Rightarrow> int \<Rightarrow> string" where
  "get_cursor_context content cursor =
     (let context_size = 100;
          start = max 0 (cursor - context_size);
          stop = min (int (length content)) (cursor + context_size)
      in py_slice content start stop)"

type_synonym llm_service =
  "nat \<Rightarrow> string \<Rightarrow> string \<Rightarrow> user_profile option \<Rightarrow> (llm_analysis, py_error) outcome"

definition analysis_entry_of :: "timestamp \<Rightarrow> llm_analysis \<Rightarrow> agent_state \<Rightarrow> analysis_entry" where
  "analysis_entry_of now analysis st =
     \<lparr>ae_timestamp = now, ae_analysis = analysis,
      ae_draft_length = Some (length (current_draft st)), ae_weak_sections = None\<rparr>"

definition analyze_draft_node ::
  "llm_service \<Rightarrow> nat \<Rightarrow> agent_state \<Rightarrow> timestamp \<Rightarrow> agent_state \<times> nat" where
  "analyze_draft_node llm calls st now =
     (case state_profile st of
        Inl e \<Rightarrow> (st, calls)
      | Inr profile \<Rightarrow>
          (case llm calls (current_draft st)
                  (get_cursor_context (current_draft st) (cursor_position st)) profile of
             Returns analysis \<Rightarrow>
               (st\<lparr>analysis_history :=
                     analysis_history st @ [analysis_entry_of now analysis st]\<rparr>,
                Suc calls)
           | Raises e \<Rightarrow> (st, Suc calls)))"

text \<open>
  The stage as the specification words it, for comparison: the call goes through the retry
  executor with 3 retries, and when no attempt succeeds an entry with an empty analysis
  is recorded.
\<close>

definition analyze_retry_config :: retry_config where
  "analyze_retry_config =
     \<lparr>max_retries = 3, base_delay = 1, max_delay = 60, exponential_base = 2, jitter = True\<rparr>"

definition empty_analysis :: llm_analysis where
  "empty_analysis = \<lparr>an_keywords = None\<rparr>"

definition analyze_draft_as_specified ::
  "llm_service \<Rightarrow> (nat \<Rightarrow> real) \<Rightarrow> nat \<Rightarrow> agent_state \<Rightarrow> timestamp \<Rightarrow> agent_state \<times> nat" where
  "analyze_draft_as_specified llm rnd calls st now =
     (let run = retry_with_exponential_backoff analyze_retry_config (\<lambda>e. True)
                  (Some ''recommend_keywords'')
                  (\<lambda>k. llm (calls + k) (current_draft st)
                          (get_cursor_context (current_draft st) (cursor_position st))
                          (user_profile st)) rnd;
          analysis = (case run_result run of Result a \<Rightarrow> a | _ \<Rightarrow> empty_analysis)
      in (st\<lparr>analysis_history := analysis_history st @ [analysis_entry_of now analysis st]\<rparr>,
          calls + run_attempts run))"

section \<open>Sanitising analyzer responses\<close>

text \<open>
  \<^verbatim>\<open>_validate_and_sanitize_response\<close> (services/llm\_service.py, lines 305--389) works on
  the value that \<^verbatim>\<open>json.loads\<close> produced from the model's answer, so on any JSON
  value. A dictionary is a list of key-value pairs in insertion order; assigning to a key
  that is present replaces its value in place. A float is a real number, an infinity or
  NaN. How Python reads a number from a string (\<^verbatim>\<open>float(s)\<close>, \<^verbatim>\<open>int(s)\<close>) is an
  argument of the model.

  The function mutates the response in place inside one \<^verbatim>\<open>try\<close> block and returns the
  response also when an exception interrupts it. Every step of the model therefore
  returns the value as far as it was rewritten together with the exception, if one was
  raised.
\<close>

datatype pyfloat = Fin real | PosInf | NegInf | NaN

datatype json =
    JNull
  | JBool bool
  | JInt int
  | JFloat pyfloat
  | JStr string
  | JList "json list"
  | JDict "(string \<times> json) list"

type_synonym 'a raising = "'a \<times> py_error option"

record number_parser =
  parse_float :: "string \<Rightarrow> pyfloat option"
  parse_int :: "string \<Rightarrow> int option"

definition py_float :: "number_parser \<Rightarrow> json \<Rightarrow> py_error + pyfloat" where
  "py_float np v =
     (case v of
        JFloat f \<Rightarrow> Inr f
      | JInt n \<Rightarrow>
          if \<bar>n\<bar> \<ge> float_overflow_bound then Inl OverflowError else Inr (Fin (real_of_int n))
      | JBool b \<Rightarrow> Inr (Fin (if b then 1 else 0))
      | JStr s \<Rightarrow>
          (case parse_float np s of None \<Rightarrow> Inl (ValueError ''could not convert'') | Some f \<Rightarrow> Inr f)
      | _ \<Rightarrow> Inl TypeError)"

definition truncate :: "real \<Rightarrow> int" where
  "truncate r = (if 0 \<le> r then \<lfloor>r\<rfloor> else \<lceil>r\<rceil>)"

definition int_of_float :: "pyfloat \<Rightarrow> py_error + int" where
  "int_of_float f =
     (case f of
        Fin r \<Rightarrow> Inr (truncate r)
      | NaN \<Rightarrow> Inl (ValueError ''cannot convert float NaN to integer'')
      | _ \<Rightarrow> Inl OverflowError)"

definition py_int :: "number_parser \<Rightarrow> json \<Rightarrow> py_error + int" where
  "py_int np v =
     (case v of
        JInt n \<Rightarrow> Inr n
      | JBool b \<Rightarrow> Inr (if b then 1 else 0)
      | JFloat f \<Rightarrow> int_of_float f
      | JStr s \<Rightarrow>
          (case parse_int np s of None \<Rightarrow> Inl (ValueError ''invalid literal'') | Some n \<Rightarrow> Inr n)
      | _ \<Rightarrow> Inl TypeError)"

text \<open>
  Comparison of floats; every comparison with NaN is false. \<^verbatim>\<open>min(a, b)\<close> answers
  \<open>a\<close> unless \<open>b < a\<close>, and \<^verbatim>\<open>max(a, b)\<close> answers \<open>a\<close> unless \<open>b > a\<close>.
\<close>

fun float_less :: "pyfloat \<Rightarrow> pyfloat \<Rightarrow> bool" where
  "float_less NaN y = False"
| "float_less x NaN = False"
| "float_less (Fin a) (Fin b) = (a < b)"
| "float_less NegInf NegInf = False"
| "float_less NegInf y = True"
| "float_less PosInf y = False"
| "float_less (Fin a) PosInf = True"
| "float_less (Fin a) NegInf = False"

definition float_min :: "pyfloat \<Rightarrow> pyfloat \<Rightarrow> pyfloat" where
  "float_min a b = (if float_less b a then b else a)"

definition float_max :: "pyfloat \<Rightarrow> pyfloat \<Rightarrow> pyfloat" where
  "float_max a b = (if float_less a b then b else a)"

definition clamp_unit :: "pyfloat \<Rightarrow> pyfloat" where
  "clamp_unit f = float_max (Fin 0) (float_min (Fin 1) f)"

text \<open>The three conversions the function assigns.\<close>

definition to_unit_float :: "number_parser \<Rightarrow> json \<Rightarrow> py_error + json" where
  "to_unit_float np v =
     (case py_float np v of Inl e \<Rightarrow> Inl e | Inr f \<Rightarrow> Inr (JFloat (clamp_unit f)))"

definition to_percent_int :: "number_parser \<Rightarrow> json \<Rightarrow> py_error + json" where
  "to_percent_int np v =
     (case py_float np v of
        Inl e \<Rightarrow> Inl e
      | Inr f \<Rightarrow>
          (case int_of_float f of Inl e \<Rightarrow> Inl e | Inr n \<Rightarrow> Inr (JInt (max 0 (min 100 n)))))"

definition to_int_at_least :: "number_parser \<Rightarrow> int \<Rightarrow> json \<Rightarrow> py_error + json" where
  "to_int_at_least np lo v =
     (case py_int np v of Inl e \<Rightarrow> Inl e | Inr n \<Rightarrow> Inr (JInt (max lo n)))"

text \<open>
  \<^verbatim>\<open>key in obj\<close>, \<^verbatim>\<open>obj[key]\<close>, \<^verbatim>\<open>obj[key] = v\<close> and \<^verbatim>\<open>obj[:n]\<close> on a JSON value.
\<close>

definition py_in :: "string \<Rightarrow> json \<Rightarrow> py_error + bool" where
  "py_in key obj =
     (case obj of
        JDict d \<Rightarrow> Inr (map_of d key \<noteq> None)
      | JList xs \<Rightarrow> Inr (JStr key \<in> set xs)
      | JStr s \<Rightarrow> Inr (py_contains key s)
      | _ \<Rightarrow> Inl TypeError)"

definition py_getitem :: "json \<Rightarrow> string \<Rightarrow> py_error + json" where
  "py_getitem obj key =
     (case obj of
        JDict d \<Rightarrow> (case map_of d key of None \<Rightarrow> Inl KeyError | Some v \<Rightarrow> Inr v)
      | _ \<Rightarrow> Inl TypeError)"

fun dict_set :: "string \<Rightarrow> json \<Rightarrow> (string \<times> json) list \<Rightarrow> (string \<times> json) list" where
  "dict_set key v [] = [(key, v)]"
| "dict_set key v ((k, w) # rest) =
     (if k = key then (k, v) # rest else (k, w) # dict_set key v rest)"

definition py_setitem :: "json \<Rightarrow> string \<Rightarrow> json \<Rightarrow> json" where
  "py_setitem obj key v = (case obj of JDict d \<Rightarrow> JDict (dict_set key v d) | _ \<Rightarrow> obj)"

definition py_take :: "nat \<Rightarrow> json \<Rightarrow> py_error + json" where
  "py_take n v =
     (case v of
        JList xs \<Rightarrow> Inr (JList (take n xs))
      | JStr s \<Rightarrow> Inr (JStr (take n s))
      | _ \<Rightarrow> Inl TypeError)"

text \<open>
  Statements in sequence: the first exception ends the sequence. \<open>assigning conv\<close> is the
  right-hand side of an assignment, which leaves the value alone when the conversion
  raises. \<open>at_key key body\<close> is the statement
  \<^verbatim>\<open>if key in obj: obj[key] = ...\<close>, or a block that rewrites \<^verbatim>\<open>obj[key]\<close> in place.
\<close>

fun run_seq :: "(json \<Rightarrow> json raising) list \<Rightarrow> json \<Rightarrow> json raising" where
  "run_seq [] x = (x, None)"
| "run_seq (f # fs) x = (case f x of (y, Some e) \<Rightarrow> (y, Some e) | (y, None) \<Rightarrow> run_seq fs y)"

definition assigning :: "(json \<Rightarrow> py_error + json) \<Rightarrow> json \<Rightarrow> json raising" where
  "assigning conv v = (case conv v of Inl e \<Rightarrow> (v, Some e) | Inr v' \<Rightarrow> (v', None))"

definition at_key :: "string \<Rightarrow> (json \<Rightarrow> json raising) \<Rightarrow> json \<Rightarrow> json raising" where
  "at_key key body obj =
     (case py_in key obj of
        Inl e \<Rightarrow> (obj, Some e)
      | Inr False \<Rightarrow> (obj, None)
      | Inr True \<Rightarrow>
          (case py_getitem obj key of
             Inl e \<Rightarrow> (obj, Some e)
           | Inr v \<Rightarrow> (case body v of (v', err) \<Rightarrow> (py_setitem obj key v', err))))"

text \<open>
  \<^verbatim>\<open>for item in xs: body\<close>. The items of a list are rewritten in place, up to the item
  at which an exception is raised. The items of a string are its characters and those of
  a dictionary its keys: the body cannot change them, it can only raise.
\<close>

fun iterate :: "(json \<Rightarrow> json raising) \<Rightarrow> json list \<Rightarrow> json list raising" where
  "iterate body [] = ([], None)"
| "iterate body (x # xs) =
     (case body x of
        (x', Some e) \<Rightarrow> (x' # xs, Some e)
      | (x', None) \<Rightarrow> (case iterate body xs of (xs', err) \<Rightarrow> (x' # xs', err)))"

definition for_each :: "(json \<Rightarrow> json raising) \<Rightarrow> json \<Rightarrow> json raising" where
  "for_each body v =
     (case v of
        JList xs \<Rightarrow> (case iterate body xs of (xs', err) \<Rightarrow> (JList xs', err))
      | JStr s \<Rightarrow> (v, snd (iterate body (map (\<lambda>c. JStr [c]) s)))
      | JDict d \<Rightarrow> (v, snd (iterate body (map (\<lambda>(k, w). JStr k) d)))
      | _ \<Rightarrow> (v, Some TypeError))"

definition take_then_each :: "nat \<Rightarrow> (json \<Rightarrow> json raising) \<Rightarrow> json \<Rightarrow> json raising" where
  "take_then_each n body v =
     (case py_take n v of Inl e \<Rightarrow> (v, Some e) | Inr v' \<Rightarrow> for_each body v')"

text \<open>The three branches of the function, statement by statement.\<close>

definition sanitize_blog_analysis :: "number_parser \<Rightarrow> json \<Rightarrow> json raising" where
  "sanitize_blog_analysis np =
     run_seq
       [at_key ''sentiment''
          (run_seq
             [at_key ''confidence'' (assigning (to_unit_float np)),
              at_key ''scores''
                (run_seq
                   [at_key ''positive'' (assigning (to_unit_float np)),
                    at_key ''negative'' (assigning (to_unit_float np)),
                    at_key ''neutral'' (assigning (to_unit_float np))])]),
        at_key ''topics''
          (take_then_each 5
             (run_seq
                [at_key ''relevance'' (assigning (to_unit_float np)),
                 at_key ''frequency'' (assigning (to_int_at_least np 1))])),
        at_key ''keywords''
          (take_then_each 10
             (run_seq
                [at_key ''relevance'' (assigning (to_unit_float np)),
                 at_key ''similarity'' (assigning (to_unit_float np))])),
        at_key ''readability'' (assigning (to_percent_int np))]"

definition sanitize_keyword_recommendations :: "number_parser \<Rightarrow> json \<Rightarrow> json raising" where
  "sanitize_keyword_recommendations np =
     run_seq
       [at_key ''keywords''
          (take_then_each 10
             (run_seq
                [at_key ''relevance'' (assigning (to_unit_float np)),
                 at_key ''similarity'' (assigning (to_unit_float np)),
                 at_key ''position'' (assigning (to_int_at_least np 0))])),
        at_key ''weak_sections''
          (for_each
             (run_seq
                [at_key ''confidence'' (assigning (to_unit_float np)),
                 at_key ''start'' (assigning (to_int_at_least np 0)),
                 at_key ''end'' (assigning (to_int_at_least np 0))])),
        at_key ''scores''
          (run_seq
             [at_key ''overall'' (assigning (to_percent_int np)),
              at_key ''readability'' (assigning (to_percent_int np)),
              at_key ''relevance'' (assigning (to_percent_int np)),
              at_key ''engagement'' (assigning (to_percent_int np)),
              at_key ''seo'' (assigning (to_percent_int np))])]"

definition sanitize_content_scoring :: "number_parser \<Rightarrow> json \<Rightarrow> json raising" where
  "sanitize_content_scoring np =
     run_seq
       [at_key ''overall_score'' (assigning (to_percent_int np)),
        at_key ''breakdown''
          (run_seq
             [at_key ''keyword_relevance'' (assigning (to_percent_int np)),
              at_key ''readability'' (assigning (to_percent_int np)),
              at_key ''user_alignment'' (assigning (to_percent_int np)),
              at_key ''structure'' (assigning (to_percent_int np)),
              at_key ''seo'' (assigning (to_percent_int np)),
              at_key ''engagement'' (assigning (to_percent_int np))]),
        at_key ''recommendations'' (assigning (py_take 5))]"

definition validate_and_sanitize_response :: "number_parser \<Rightarrow> json \<Rightarrow> string \<Rightarrow> json" where
  "validate_and_sanitize_response np response_data schema_key =
     (if schema_key = ''blog_analysis'' then fst (sanitize_blog_analysis np response_data)
      else if schema_key = ''keyword_recommendations''
      then fst (sanitize_keyword_recommendations np response_data)
      else if schema_key = ''content_scoring'' then fst (sanitize_content_scoring np response_data)
      else response_data)"

text \<open>
  Notions for the idempotence proof. A step is stable when running it again on the value
  it produced gives that value and the same exception again. Two values are the same at a
  key when they are equal or both dictionaries that map the key to the same value.
\<close>

definition stable :: "(json \<Rightarrow> json raising) \<Rightarrow> bool" where
  "stable f = (\<forall>x. f (fst (f x)) = f x)"

definition same_at :: "string \<Rightarrow> json \<Rightarrow> json \<Rightarrow> bool" where
  "same_at key y z = (y = z \<or> (\<exists>d d'. y = JDict d \<and> z = JDict d' \<and> map_of d key = map_of d' key))"

definition leaves_key :: "string \<Rightarrow> (json \<Rightarrow> json raising) \<Rightarrow> bool" where
  "leaves_key key g = (\<forall>y. same_at key y (fst (g y)))"

definition idempotent_conv :: "(json \<Rightarrow> py_error + json) \<Rightarrow> bool" where
  "idempotent_conv conv = (\<forall>v v'. conv v = Inr v' \<longrightarrow> conv v' = Inr v')"

section \<open>Example inputs\<close>

definition example_entry :: "nat \<Rightarrow> analysis_entry" where
  "example_entry n =
     \<lparr>ae_timestamp = 0, ae_analysis = \<lparr>an_keywords = None\<rparr>,
      ae_draft_length = Some n, ae_weak_sections = None\<rparr>"

definition example_state :: agent_state where
  "example_state =
     \<lparr>session_id = ''s'', user_profile = None, current_draft = ''thirteen char'',
      cursor_position = 0, previous_suggestions = [],
      analysis_history = [example_entry 10, example_entry 13],
      current_score = [], iteration_count = Some 1, last_updated = 0,
      final_response = None\<rparr>"



definition fails_thrice :: "nat \<Rightarrow> (string, string) outcome" where
  "fails_thrice k = (if k < 3 then Raises ''timeout'' else Returns ''ok'')"

definition overflow_config :: retry_config where
  "overflow_config =
     \<lparr>max_retries = 3, base_delay = 1, max_delay = 60, exponential_base = 10 ^ 200,
      jitter = True\<rparr>"

definition example_profile :: user_profile where
  "example_profile =
     \<lparr>user_id = ''u1'', preferred_topics = [], reading_level = ''intermediate'',
      writing_style = ''casual'', target_audience = None, expertise_areas = []\<rparr>"

definition example_workflow :: workflow where
  "example_workflow st = Inr (st\<lparr>final_response := Some EmptyResponse\<rparr>)"

definition example_orchestrator :: orchestrator where
  "example_orchestrator =
     snd (update_draft (snd (start_session initial_orchestrator example_profile ''id-1'' 0))
            example_workflow ''id-1'' ''Short.'' (Some 0) 1)"

definition example_draft :: string where
  "example_draft = ''Ok. This is a much longer sentence that exceeds ten characters easily.''"

definition example_weak_state :: agent_state where
  "example_weak_state =
     \<lparr>session_id = ''s'', user_profile = None, current_draft = example_draft,
      cursor_position = 0, previous_suggestions = [],
      analysis_history = [example_entry 70],
      current_score = [], iteration_count = Some 0, last_updated = 0,
      final_response = None\<rparr>"

definition casual_text :: string where
  "casual_text = ''don't won't can't it's we're you'll i'll''"

text \<open>
  What the regular expression library answers on the draft \<^verbatim>\<open>Short.\<close> and on its
  lower-case form, the only texts the scoring engine passes to it for that draft.
\<close>

definition short_regex :: regex_lib where
  "short_regex =
     \<lparr>findall_words = (\<lambda>s. [''short'']),
      split_sentences = (\<lambda>s. [''Short'', []]),
      count_headings = (\<lambda>s. 0),
      match_title = (\<lambda>s. False),
      search_lists = (\<lambda>s. False),
      search_emphasis = (\<lambda>s. False),
      count_questions = (\<lambda>s. 0),
      count_phrase = (\<lambda>phrase s. 0)\<rparr>"

definition short_state :: agent_state where
  "short_state =
     \<lparr>session_id = ''s'', user_profile = None, current_draft = ''Short.'',
      cursor_position = 0, previous_suggestions = [], analysis_history = [],
      current_score = [], iteration_count = Some 0, last_updated = 0,
      final_response = None\<rparr>"

definition search_keyword :: keyword_dict where
  "search_keyword =
     \<lparr>kw_keyword = Some ''search engine'', kw_relevance_score = Some 0.5, kw_context = ''seo''\<rparr>"

definition failing_llm :: llm_service where
  "failing_llm k draft ctx profile = Raises (OtherError ''service unavailable'')"

definition example_parser :: number_parser where
  "example_parser =
     \<lparr>parse_float = (\<lambda>s. if s = ''0.4'' then Some (Fin 0.4) else None),
      parse_int = (\<lambda>s. None)\<rparr>"

definition example_response :: json where
  "example_response =
     JDict
       [(''keywords'',
           JList [JDict [(''keyword'', JStr ''seo''), (''relevance'', JFloat (Fin 1.7)),
                         (''similarity'', JStr ''0.4''), (''position'', JInt (- 3))]]),
        (''weak_sections'',
           JList [JDict [(''confidence'', JFloat NaN), (''start'', JFloat (Fin 2.9)),
                         (''end'', JNull)]]),
        (''scores'', JDict [(''overall'', JInt 150)])]"

definition example_sanitized :: json where
  "example_sanitized =
     JDict
       [(''keywords'',
           JList [JDict [(''keyword'', JStr ''seo''), (''relevance'', JFloat (Fin 1)),
                         (''similarity'', JFloat (Fin 0.4)), (''position'', JInt 0)]]),
        (''weak_sections'',
           JList [JDict [(''confidence'', JFloat (Fin 1)), (''start'', JInt 2),
                         (''end'', JNull)]]),
        (''scores'', JDict [(''overall'', JInt 150)])]"

section \<open>Verified properties\<close>

subsection \<open>The loop decision\<close>

lemma change_ratio_iff:
  fixes c p :: int
  assumes "0 \<le> p"
  shows "real_of_int \<bar>c - p\<bar> / real_of_int (max p 1) > 0.2 \<longleftrightarrow>
         real_of_int \<bar>c - p\<bar> > 0.2 * real_of_int p"
proof (cases "p = 0")
  case True
  then show ?thesis by simp linarith
next
  case False
  with assms have "max p 1 = p" and "0 < real_of_int p" by simp_all
  then show ?thesis by (simp add: field_simps)
qed

lemma get_draft_length_nonneg: "0 \<le> get_draft_length e"
  by (simp add: get_draft_length_def split: option.splits)

text \<open>
  C2. The loop decision answers \<^verbatim>\<open>continue\<close> exactly when the iteration count is below 2,
  the analysis history has at least two entries, and the length of the draft differs from
  the length recorded in the second-most-recent entry by more than 20 percent of that
  recorded length; in every other case it answers \<^verbatim>\<open>end\<close>.
\<close>

theorem should_iterate_spec:
  "(should_iterate st = ''continue'' \<longleftrightarrow>
      get_iteration_count st < 2 \<and> 2 \<le> length (analysis_history st) \<and>
      real_of_int \<bar>int (length (current_draft st))
          - get_draft_length (analysis_history st ! (length (analysis_history st) - 2))\<bar>
        > 0.2 * real_of_int (get_draft_length (analysis_history st ! (length (analysis_history st) - 2))))
   \<and> (should_iterate st = ''continue'' \<or> should_iterate st = ''end'')"
proof -
  let ?p = "get_draft_length (analysis_history st ! (length (analysis_history st) - 2))"
  have r: "real_of_int \<bar>int (length (current_draft st)) - ?p\<bar> / real_of_int (max ?p 1) > 0.2 \<longleftrightarrow>
           real_of_int \<bar>int (length (current_draft st)) - ?p\<bar> > 0.2 * real_of_int ?p"
    by (rule change_ratio_iff) (rule get_draft_length_nonneg)
  have c: "content_changed_significantly st \<longleftrightarrow>
           2 \<le> length (analysis_history st) \<and>
           real_of_int \<bar>int (length (current_draft st)) - ?p\<bar> > 0.2 * real_of_int ?p"
    unfolding content_changed_significantly_def Let_def using r by auto
  show ?thesis
    unfolding should_iterate_def Let_def using c by auto
qed

theorem should_iterate_spec_witness:
  "get_iteration_count example_state < 2 \<and> 2 \<le> length (analysis_history example_state) \<and>
   should_iterate example_state = ''continue''"
  using should_iterate_spec [of example_state]
  by (simp add: example_state_def example_entry_def get_iteration_count_def get_draft_length_def)

subsection \<open>The retry executor\<close>

lemma retry_loop_skip:
  assumes nm: "func_name = Some name"
    and pre: "\<forall>j<k. fails_retryably retryable (func (a + j))"
    and kn: "k < n" and inv: "int a + int n = max_retries cfg + 1"
    and ov: "\<forall>j<k. \<not> pow_overflows (exponential_base cfg) (a + j)"
  shows "\<exists>lst' slept'. retry_loop cfg retryable func_name func rnd n a lst slept
           = retry_loop cfg retryable func_name func rnd (n - k) (a + k) lst' slept'
           \<and> length slept' = length slept + k"
  using pre kn inv ov
proof (induction k arbitrary: a n lst slept)
  case 0
  then show ?case by auto
next
  case (Suc k)
  from Suc.prems(2) obtain n' where n: "n = Suc n'" by (cases n) auto
  from Suc.prems(1) have "fails_retryably retryable (func (a + 0))" by blast
  then obtain e where e: "func a = Raises e" "retryable e"
    by (auto simp: fails_retryably_def split: outcome.splits)
  from Suc.prems(2,3) n have lt: "int a < max_retries cfg" by linarith
  from Suc.prems(4) have "\<not> pow_overflows (exponential_base cfg) (a + 0)" by blast
  then obtain delay where d: "retry_delay cfg rnd a = Inr delay"
    by (simp add: retry_delay_def Let_def)
  have step: "retry_loop cfg retryable func_name func rnd n a lst slept
      = retry_loop cfg retryable func_name func rnd n' (Suc a) (Some e) (slept @ [delay])"
    using e lt n nm d by simp
  have "\<forall>j<k. fails_retryably retryable (func (Suc a + j))"
    using Suc.prems(1) by (metis Suc_less_eq add_Suc_shift)
  moreover have "k < n'" using Suc.prems(2) n by simp
  moreover have "int (Suc a) + int n' = max_retries cfg + 1" using Suc.prems(3) n by simp
  moreover have "\<forall>j<k. \<not> pow_overflows (exponential_base cfg) (Suc a + j)"
    using Suc.prems(4) by (metis Suc_less_eq add_Suc_shift)
  ultimately obtain lst' slept' where
    "retry_loop cfg retryable func_name func rnd n' (Suc a) (Some e) (slept @ [delay])
       = retry_loop cfg retryable func_name func rnd (n' - k) (Suc a + k) lst' slept'"
    "length slept' = length (slept @ [delay]) + k"
    using Suc.IH by blast
  with step n show ?case by auto
qed








lemma retry_overflow_escapes:
  assumes nm: "func_name = Some name"
    and pre: "\<forall>j\<le>k. fails_retryably retryable (func j)" and k: "int k < max_retries cfg"
    and ov: "\<forall>j<k. \<not> pow_overflows (exponential_base cfg) j"
    and over: "pow_overflows (exponential_base cfg) k"
  shows "\<exists>slept. length slept = k \<and>
     retry_with_exponential_backoff cfg retryable func_name func rnd
       = (ExecutorError OverflowError, Suc k, slept)"
proof -
  let ?n = "nat (max_retries cfg + 1)"
  have kn: "k < ?n" using k by linarith
  have inv: "int 0 + int ?n = max_retries cfg + 1" using k by linarith
  from pre have pre': "\<forall>j<k. fails_retryably retryable (func (0 + j))" by simp
  from ov have ov': "\<forall>j<k. \<not> pow_overflows (exponential_base cfg) (0 + j)" by simp
  from retry_loop_skip[OF nm pre' kn inv ov', of rnd None "[]"]
  obtain lst' slept' where
    eq: "retry_loop cfg retryable func_name func rnd ?n 0 None []
          = retry_loop cfg retryable func_name func rnd (?n - k) k lst' slept'"
    and len: "length slept' = k" by auto
  from kn obtain m where m: "?n - k = Suc m" by (cases "?n - k") auto
  from pre have "fails_retryably retryable (func k)" by simp
  then obtain e where e: "func k = Raises e" "retryable e"
    by (auto simp: fails_retryably_def split: outcome.splits)
  from over have d: "retry_delay cfg rnd k = Inl OverflowError" by (simp add: retry_delay_def)
  from k have ne: "int k \<noteq> max_retries cfg" by simp
  show ?thesis
    apply (rule exI[of _ slept'])
    using len eq m nm e d ne
    by (simp add: retry_with_exponential_backoff_def)
qed






text \<open>
  The two paths the hypotheses exclude, at concrete inputs. With the base \<open>10 ^ 200\<close> the
  power of the third handler overflows: the run ends with the overflow error after three
  calls, and the fourth call, which would succeed, is never made.
\<close>

lemma retry_overflow_example:
  "fails_thrice 3 = Returns ''ok'' \<and>
   run_result (retry_with_exponential_backoff overflow_config (\<lambda>_. True) (Some ''fetch'')
                 fails_thrice (\<lambda>_. 0)) = ExecutorError OverflowError \<and>
   run_attempts (retry_with_exponential_backoff overflow_config (\<lambda>_. True) (Some ''fetch'')
                   fails_thrice (\<lambda>_. 0)) = 3"
proof -
  have b: "(10::real) ^ 200 < real_of_int float_overflow_bound"
    by (simp add: float_overflow_bound_def)
  have c: "real_of_int float_overflow_bound \<le> ((10::real) ^ 200) ^ 2"
    by (simp add: float_overflow_bound_def)
  have o0: "\<not> pow_overflows (exponential_base overflow_config) 0"
    using b by (simp add: pow_overflows_def overflow_config_def float_overflow_bound_def)
  have o1: "\<not> pow_overflows (exponential_base overflow_config) 1"
    using b by (simp add: pow_overflows_def overflow_config_def)
  have ov: "\<forall>j<2. \<not> pow_overflows (exponential_base overflow_config) j"
    using o0 o1 by (auto simp: less_Suc_eq numeral_2_eq_2)
  have over: "pow_overflows (exponential_base overflow_config) 2"
    using c by (simp add: pow_overflows_def overflow_config_def)
  have pre: "\<forall>j\<le>2. fails_retryably (\<lambda>_. True) (fails_thrice j)"
    by (simp add: fails_thrice_def fails_retryably_def)
  have k: "int 2 < max_retries overflow_config" by (simp add: overflow_config_def)
  have s: "fails_thrice 3 = Returns ''ok''" by (simp add: fails_thrice_def)
  from retry_overflow_escapes[OF refl pre k ov over, of "''fetch''" "\<lambda>_. 0"]
  obtain slept where
    "retry_with_exponential_backoff overflow_config (\<lambda>_. True) (Some ''fetch'')
       fails_thrice (\<lambda>_. 0) = (ExecutorError OverflowError, Suc 2, slept)"
    by blast
  with s show ?thesis by (simp add: run_result_def run_attempts_def)
qed

subsection \<open>Sessions\<close>

text \<open>
  C8. Ending a session that was just started succeeds and removes it from the store;
  ending it again fails with the session-not-found error, and so does an update of any
  identifier that is not in the store.
\<close>

theorem session_lifecycle:
  "(\<exists>summary orch2.
      end_session (snd (start_session orch p new_id t0)) (fst (start_session orch p new_id t0)) t1
        = (Inr summary, orch2) \<and>
      active_sessions orch2 (fst (start_session orch p new_id t0)) = None \<and>
      end_session orch2 (fst (start_session orch p new_id t0)) t2
        = (Inl (session_not_found (fst (start_session orch p new_id t0))), orch2))
   \<and> (active_sessions orch sid = None \<longrightarrow>
        update_draft orch flow sid draft_text cursor t3 = (Inl (session_not_found sid), orch))"
  by (simp add: start_session_def end_session_def update_draft_def Let_def)

theorem session_lifecycle_witness:
  "active_sessions initial_orchestrator ''id-1'' = None \<and>
   update_draft initial_orchestrator example_workflow ''id-1'' ''Short.'' None 3
     = (Inl (session_not_found ''id-1''), initial_orchestrator) \<and>
   fst (end_session (snd (start_session initial_orchestrator example_profile ''id-1'' 0)) ''id-1'' 1)
     = Inr \<lparr>session_duration = 1, total_suggestions = 0, final_draft_length = 0, average_score = 0\<rparr>"
  using session_lifecycle [of initial_orchestrator example_profile "''id-1''" 0 1 2 "''id-1''"
      example_workflow "''Short.''" None 3]
  by (simp add: initial_orchestrator_def start_session_def end_session_def calculate_average_score_def)

lemma reachable_no_scores:
  "reachable orch \<Longrightarrow> active_sessions orch sid = Some session \<Longrightarrow> score_history session = []"
proof (induction arbitrary: sid session rule: reachable.induct)
  case reach_init
  then show ?case by (simp add: initial_orchestrator_def)
next
  case (reach_start orch profile new_id now)
  then show ?case by (auto simp: start_session_def Let_def split: if_splits)
next
  case (reach_update orch flow sid' draft_text cursor now)
  then show ?case
    by (auto simp: update_draft_def Let_def split: option.splits sum.splits if_splits)
next
  case (reach_end orch sid' now)
  then show ?case
    by (auto simp: end_session_def Let_def split: option.splits if_splits)
qed

text \<open>
  C10. Whatever sequence of session operations produced the orchestrator, a summary
  returned by \<^verbatim>\<open>end_session\<close> has average score 0: no operation adds to a session's
  score history.
\<close>

theorem average_score_always_zero:
  assumes "reachable orch" and "end_session orch sid now = (Inr summary, orch')"
  shows "average_score summary = 0"
proof (cases "active_sessions orch sid")
  case None
  with assms(2) show ?thesis by (simp add: end_session_def)
next
  case (Some session)
  with assms(1) have "score_history session = []" by (rule reachable_no_scores)
  with Some assms(2) show ?thesis
    by (auto simp: end_session_def Let_def calculate_average_score_def)
qed

theorem average_score_always_zero_witness:
  "reachable example_orchestrator \<and>
   end_session example_orchestrator ''id-1'' 2 =
     (Inr \<lparr>session_duration = 2, total_suggestions = 1, final_draft_length = 6, average_score = 0\<rparr>,
      snd (end_session example_orchestrator ''id-1'' 2))"
proof -
  have r: "reachable example_orchestrator"
    unfolding example_orchestrator_def by (intro reachable.intros)
  have e: "end_session example_orchestrator ''id-1'' 2 =
     (Inr (projr (fst (end_session example_orchestrator ''id-1'' 2))),
      snd (end_session example_orchestrator ''id-1'' 2))"
    by (simp add: example_orchestrator_def initial_orchestrator_def start_session_def
        update_draft_def example_workflow_def end_session_def Let_def)
  from average_score_always_zero [OF r e]
  have z: "average_score (projr (fst (end_session example_orchestrator ''id-1'' 2))) = 0" .
  have "projr (fst (end_session example_orchestrator ''id-1'' 2)) =
      \<lparr>session_duration = 2, total_suggestions = 1, final_draft_length = 6,
       average_score = average_score (projr (fst (end_session example_orchestrator ''id-1'' 2)))\<rparr>"
    by (simp add: example_orchestrator_def initial_orchestrator_def start_session_def
        update_draft_def example_workflow_def end_session_def Let_def)
  with z e r show ?thesis by simp
qed

subsection \<open>The IdentifyWeaknesses stage\<close>

lemma starts_with_occurs: "starts_with s sub \<longleftrightarrow> occurs_at s sub 0"
proof
  assume h: "starts_with s sub"
  then have "length (take (length sub) s) = length sub" by (simp add: starts_with_def)
  then have "length sub \<le> length s" by simp
  with h show "occurs_at s sub 0" by (simp add: starts_with_def occurs_at_def)
next
  assume "occurs_at s sub 0"
  then show "starts_with s sub" by (simp add: starts_with_def occurs_at_def)
qed

lemma occurs_at_Cons_Suc: "occurs_at (c # cs) sub (Suc i) \<longleftrightarrow> occurs_at cs sub i"
  by (simp add: occurs_at_def)

lemma find_from_first:
  "occurs_at s sub i \<Longrightarrow> \<exists>k\<le>i. find_from s sub n = int (n + k) \<and> first_occurrence s sub k"
proof (induction s arbitrary: i n)
  case Nil
  then have "sub = []" "i = 0" by (simp_all add: occurs_at_def)
  then show ?case by (simp add: first_occurrence_def occurs_at_def)
next
  case (Cons c cs)
  show ?case
  proof (cases "starts_with (c # cs) sub")
    case True
    then have "first_occurrence (c # cs) sub 0"
      by (simp add: first_occurrence_def starts_with_occurs)
    with True show ?thesis by auto
  next
    case False
    then have n0: "\<not> occurs_at (c # cs) sub 0" by (simp add: starts_with_occurs)
    with Cons.prems obtain i' where i: "i = Suc i'" by (cases i) auto
    with Cons.prems have "occurs_at cs sub i'" by (simp add: occurs_at_Cons_Suc)
    from Cons.IH[OF this, of "Suc n"] obtain k where
      k: "k \<le> i'" "find_from cs sub (Suc n) = int (Suc n + k)" "first_occurrence cs sub k" by blast
    have "first_occurrence (c # cs) sub (Suc k)"
      unfolding first_occurrence_def
    proof (intro conjI allI impI)
      show "occurs_at (c # cs) sub (Suc k)"
        using k(3) by (simp add: first_occurrence_def occurs_at_Cons_Suc)
    next
      fix j assume "j < Suc k"
      then show "\<not> occurs_at (c # cs) sub j"
        using n0 k(3) by (cases j) (auto simp: first_occurrence_def occurs_at_Cons_Suc)
    qed
    with False k i show ?thesis by (intro exI[of _ "Suc k"]) auto
  qed
qed

lemma py_find_first:
  "occurs_at s sub i \<Longrightarrow> \<exists>k. py_find s sub = int k \<and> first_occurrence s sub k"
  using find_from_first[of s sub i 0] by (auto simp: py_find_def)

lemma occurs_at_append: "occurs_at s p i \<Longrightarrow> occurs_at (pre @ s) p (length pre + i)"
  by (simp add: occurs_at_def)

lemma occurs_at_drop: "occurs_at (drop n s) p i \<Longrightarrow> n \<le> length s \<Longrightarrow> occurs_at s p (n + i)"
  by (auto simp: occurs_at_def add.commute)

lemma occurs_at_prefix: "occurs_at (cur @ s) cur 0"
  by (simp add: occurs_at_def)

lemma split_aux_occurs:
  "p \<in> set (split_aux sep s cur) \<Longrightarrow> \<exists>i. occurs_at (cur @ s) p i"
proof (induction sep s cur rule: split_aux.induct)
  case (1 sep cur)
  then show ?case using occurs_at_prefix[of cur "[]"] by auto
next
  case (2 sep c cs cur)
  show ?case
  proof (cases "sep \<noteq> [] \<and> starts_with (c # cs) sep")
    case True
    with "2.prems" have "p = cur \<or> p \<in> set (split_aux sep (drop (length sep) (c # cs)) [])"
      by simp
    then show ?thesis
    proof
      assume "p = cur"
      then show ?thesis using occurs_at_prefix by blast
    next
      assume "p \<in> set (split_aux sep (drop (length sep) (c # cs)) [])"
      from "2.IH"(1)[OF True this] obtain i where
        "occurs_at (drop (length sep) (c # cs)) p i" by auto
      moreover have "length sep \<le> length (c # cs)"
        using True by (simp add: starts_with_occurs occurs_at_def)
      ultimately have "occurs_at (c # cs) p (length sep + i)" by (rule occurs_at_drop)
      then have "occurs_at (cur @ c # cs) p (length cur + (length sep + i))"
        by (rule occurs_at_append)
      then show ?thesis by blast
    qed
  next
    case False
    with "2.prems" have "p \<in> set (split_aux sep cs (cur @ [c]))" by auto
    from "2.IH"(2)[OF False this] show ?thesis by simp
  qed
qed

lemma split_aux_nonempty: "split_aux sep s cur \<noteq> []"
  by (induction sep s cur rule: split_aux.induct) auto

lemma py_join_Cons: "xs \<noteq> [] \<Longrightarrow> py_join sep (x # xs) = x @ sep @ py_join sep xs"
  by (cases xs) auto

lemma starts_with_drop: "starts_with s sep \<Longrightarrow> sep @ drop (length sep) s = s"
  by (metis append_take_drop_id starts_with_def)

lemma split_aux_join: "py_join sep (split_aux sep s cur) = cur @ s"
proof (induction sep s cur rule: split_aux.induct)
  case (1 sep cur)
  then show ?case by simp
next
  case (2 sep c cs cur)
  show ?case
  proof (cases "sep \<noteq> [] \<and> starts_with (c # cs) sep")
    case True
    then show ?thesis
      using "2.IH"(1)[OF True] starts_with_drop[of "c # cs" sep]
      by (simp add: py_join_Cons split_aux_nonempty)
  next
    case False
    then show ?thesis using "2.IH"(2)[OF False] by auto
  qed
qed

lemma weak_sections_loop_filter:
  "weak_sections_loop content sentences acc =
     acc @ map (short_sentence_section content) (filter (\<lambda>s. length s < 10) sentences)"
  by (induction sentences arbitrary: acc) auto


lemma occurs_at_append_right: "occurs_at s p i \<Longrightarrow> occurs_at (s @ t) p i"
  by (simp add: occurs_at_def)

lemma occurs_at_bound: "occurs_at s p i \<Longrightarrow> p \<noteq> [] \<Longrightarrow> i < length s"
  by (cases p) (auto simp: occurs_at_def)

lemma occurs_at_after_prefix: "occurs_at (cur @ s) p (length cur) \<longleftrightarrow> occurs_at s p 0"
  by (simp add: occurs_at_def)

lemma split_aux_no_sep:
  assumes "sep \<noteq> []" and "\<forall>j<length cur. \<not> occurs_at (cur @ s) sep j"
    and "p \<in> set (split_aux sep s cur)"
  shows "\<not> occurs_at p sep i"
  using assms
proof (induction sep s cur rule: split_aux.induct)
  case (1 sep cur)
  then have p: "p = cur" by simp
  show ?case
  proof
    assume o: "occurs_at p sep i"
    with "1.prems"(1) have "i < length cur" unfolding p by (rule occurs_at_bound[rotated])
    with "1.prems"(2) o p show False by simp
  qed
next
  case (2 sep c cs cur)
  show ?case
  proof (cases "sep \<noteq> [] \<and> starts_with (c # cs) sep")
    case True
    with "2.prems"(3) have "p = cur \<or> p \<in> set (split_aux sep (drop (length sep) (c # cs)) [])"
      by simp
    then show ?thesis
    proof
      assume p: "p = cur"
      show ?thesis
      proof
        assume o: "occurs_at p sep i"
        with "2.prems"(1) have "i < length cur" unfolding p by (rule occurs_at_bound[rotated])
        moreover from o have "occurs_at (cur @ c # cs) sep i"
          unfolding p by (rule occurs_at_append_right)
        ultimately show False using "2.prems"(2) by blast
      qed
    next
      assume "p \<in> set (split_aux sep (drop (length sep) (c # cs)) [])"
      with "2.IH"(1)[OF True "2.prems"(1)] show ?thesis by simp
    qed
  next
    case False
    with "2.prems"(3) have in': "p \<in> set (split_aux sep cs (cur @ [c]))" by auto
    have "\<forall>j<length (cur @ [c]). \<not> occurs_at ((cur @ [c]) @ cs) sep j"
    proof (intro allI impI)
      fix j assume "j < length (cur @ [c])"
      then have "j < length cur \<or> j = length cur" by auto
      then show "\<not> occurs_at ((cur @ [c]) @ cs) sep j"
      proof
        assume "j < length cur"
        with "2.prems"(2) show ?thesis by simp
      next
        assume j: "j = length cur"
        from False "2.prems"(1) have "\<not> occurs_at (c # cs) sep 0"
          by (simp add: starts_with_occurs)
        then show ?thesis unfolding j using occurs_at_after_prefix[of cur "c # cs" sep] by simp
      qed
    qed
    from "2.IH"(2)[OF False "2.prems"(1) this in'] show ?thesis .
  qed
qed

text \<open>
  C7 as stated fails. The draft \<^verbatim>\<open>Short.\<close> is one segment of 6 characters, but in a run
  whose analysis history is empty (the analysis call failed) the stage emits no weak
  section: the list it builds is stored only in the latest analysis entry, and the state
  comes back unchanged.
\<close>

theorem identify_weaknesses_counterexample:
  "py_split (current_draft short_state) ''. '' = Inr [''Short.''] \<and>
   length ''Short.'' < (10::nat) \<and>
   analysis_history short_state = [] \<and>
   identify_weaknesses_node short_state = short_state \<and>
   latest_weak_sections (identify_weaknesses_node short_state) = None"
proof -
  have s: "py_split (current_draft short_state) ''. '' = Inr [''Short.'']"
    by (simp add: py_split_def short_state_def starts_with_def)
  have n: "identify_weaknesses_node short_state = short_state"
    unfolding identify_weaknesses_node_def Let_def s
    by (simp add: short_state_def set_last_weak_sections_def)
  show ?thesis
    unfolding n using s by (simp add: latest_weak_sections_def short_state_def)
qed

text \<open>
  C7, amended. The stage splits the draft at every \<^verbatim>\<open>". "\<close>: the segments contain no
  separator and joined by it give the draft back. When the run has an analysis entry, the
  weak sections stored in the latest entry are, in order, one for each segment shorter than
  10 characters and none for the other segments, and nothing else of the state changes;
  when the analysis history is empty, nothing is emitted and the state is unchanged. Each
  weak section has issue type \<^verbatim>\<open>sentence_too_short\<close>, severity \<^verbatim>\<open>medium\<close> and
  confidence 0.7, starts at the first index at which the segment occurs in the draft and
  ends at start plus the segment's length, inside the draft.
\<close>

theorem identify_weaknesses_spec:
  "\<exists>sentences.
     py_split (current_draft st) ''. '' = Inr sentences \<and>
     py_join ''. '' sentences = current_draft st \<and>
     (\<forall>s\<in>set sentences. \<forall>i. \<not> occurs_at s ''. '' i) \<and>
     (analysis_history st \<noteq> [] \<longrightarrow>
        latest_weak_sections (identify_weaknesses_node st) =
          Some (map (short_sentence_section (current_draft st))
                  (filter (\<lambda>s. length s < 10) sentences)) \<and>
        identify_weaknesses_node st =
          st\<lparr>analysis_history :=
               butlast (analysis_history st) @
               [(last (analysis_history st))
                  \<lparr>ae_weak_sections :=
                     Some (map (short_sentence_section (current_draft st))
                             (filter (\<lambda>s. length s < 10) sentences))\<rparr>]\<rparr>) \<and>
     (analysis_history st = [] \<longrightarrow>
        identify_weaknesses_node st = st \<and>
        latest_weak_sections (identify_weaknesses_node st) = None) \<and>
     (\<forall>s\<in>set sentences.
        issue_type (short_sentence_section (current_draft st) s) = ''sentence_too_short'' \<and>
        severity (short_sentence_section (current_draft st) s) = ''medium'' \<and>
        confidence (short_sentence_section (current_draft st) s) = 0.7 \<and>
        (\<exists>i. first_occurrence (current_draft st) s i \<and>
             start_position (short_sentence_section (current_draft st) s) = int i \<and>
             end_position (short_sentence_section (current_draft st) s) = int (i + length s) \<and>
             i + length s \<le> length (current_draft st)))"
proof -
  let ?d = "current_draft st"
  let ?ss = "split_aux ''. '' ?d []"
  let ?ws = "map (short_sentence_section ?d) (filter (\<lambda>s. length s < 10) ?ss)"
  have a: "py_split ?d ''. '' = Inr ?ss" by (simp add: py_split_def)
  have b: "py_join ''. '' ?ss = ?d" by (simp add: split_aux_join)
  have c: "\<forall>s\<in>set ?ss. \<forall>i. \<not> occurs_at s ''. '' i"
  proof (intro ballI allI)
    fix s i assume "s \<in> set ?ss"
    with split_aux_no_sep[of "''. ''" "[]" ?d s i] show "\<not> occurs_at s ''. '' i" by simp
  qed
  have d: "identify_weaknesses_node st =
       st\<lparr>analysis_history := set_last_weak_sections (analysis_history st) ?ws\<rparr>"
    by (simp add: identify_weaknesses_node_def a weak_sections_loop_filter Let_def)
  have d1: "latest_weak_sections (identify_weaknesses_node st) = Some ?ws \<and>
        identify_weaknesses_node st =
          st\<lparr>analysis_history :=
               butlast (analysis_history st) @
               [(last (analysis_history st))\<lparr>ae_weak_sections := Some ?ws\<rparr>]\<rparr>"
    if "analysis_history st \<noteq> []"
    unfolding d using that
    by (simp add: set_last_weak_sections_def latest_weak_sections_def)
  have d2: "identify_weaknesses_node st = st \<and>
        latest_weak_sections (identify_weaknesses_node st) = None"
    if "analysis_history st = []"
    unfolding d using that
    by (simp add: set_last_weak_sections_def latest_weak_sections_def)
  have e: "\<exists>i. first_occurrence ?d s i \<and>
             start_position (short_sentence_section ?d s) = int i \<and>
             end_position (short_sentence_section ?d s) = int (i + length s) \<and>
             i + length s \<le> length ?d" if "s \<in> set ?ss" for s
  proof -
    from split_aux_occurs[OF that] obtain j where "occurs_at ?d s j" by auto
    from py_find_first[OF this] obtain k where
      k: "py_find ?d s = int k" "first_occurrence ?d s k" by blast
    from k(2) have "k + length s \<le> length ?d"
      by (simp add: first_occurrence_def occurs_at_def)
    with k show ?thesis by (auto simp: short_sentence_section_def)
  qed
  have f: "issue_type (short_sentence_section ?d s) = ''sentence_too_short'' \<and>
        severity (short_sentence_section ?d s) = ''medium'' \<and>
        confidence (short_sentence_section ?d s) = 0.7" for s
    by (simp add: short_sentence_section_def)
  show ?thesis
    apply (rule exI[of _ ?ss])
    using a b c d1 d2 e f by blast
qed

lemma example_split:
  "split_aux ''. '' example_draft [] =
     [''Ok'', ''This is a much longer sentence that exceeds ten characters easily.'']"
  by (simp add: example_draft_def starts_with_def)

theorem identify_weaknesses_spec_witness:
  "analysis_history example_weak_state \<noteq> [] \<and>
   py_split (current_draft example_weak_state) ''. '' =
     Inr [''Ok'', ''This is a much longer sentence that exceeds ten characters easily.''] \<and>
   latest_weak_sections (identify_weaknesses_node example_weak_state) =
     Some [\<lparr>start_position = 0, end_position = 2, issue_type = ''sentence_too_short'',
            severity = ''medium'',
            suggestion = ''Consider expanding this sentence with more detail'',
            confidence = 0.7\<rparr>]"
proof -
  have h: "analysis_history example_weak_state \<noteq> []"
    by (simp add: example_weak_state_def)
  have d: "current_draft example_weak_state = example_draft"
    by (simp add: example_weak_state_def)
  have s: "py_split (current_draft example_weak_state) ''. '' =
     Inr [''Ok'', ''This is a much longer sentence that exceeds ten characters easily.'']"
    by (simp add: d py_split_def example_split)
  have f: "py_find example_draft ''Ok'' = 0"
    by (simp add: py_find_def example_draft_def starts_with_def)
  from identify_weaknesses_spec [of example_weak_state] s h
  have "latest_weak_sections (identify_weaknesses_node example_weak_state) =
      Some (map (short_sentence_section (current_draft example_weak_state))
              (filter (\<lambda>s. length s < 10)
                 [''Ok'', ''This is a much longer sentence that exceeds ten characters easily.'']))"
    by auto
  then have "latest_weak_sections (identify_weaknesses_node example_weak_state) =
      Some [short_sentence_section example_draft ''Ok'']"
    by (simp add: d)
  with h s f show ?thesis by (simp add: short_sentence_section_def)
qed

subsection \<open>The scoring engine\<close>

lemma py_round2_close: "\<bar>py_round2 x - x\<bar> \<le> 1 / 200"
proof -
  define y where "y = x * 100"
  define f where "f = \<lfloor>y\<rfloor>"
  define d where "d = y - of_int f"
  define v where "v = (if d < 1 / 2 then real_of_int f
       else if 1 / 2 < d then of_int f + 1
       else if even f then of_int f else of_int f + 1)"
  have d: "0 \<le> d" "d < 1" unfolding d_def f_def by linarith+
  have r: "py_round2 x = v / 100"
    unfolding py_round2_def Let_def v_def d_def f_def y_def by simp
  have a: "\<bar>v - y\<bar> \<le> 1 / 2"
    using d unfolding v_def by (auto simp: abs_if d_def)
  have e: "py_round2 x - x = (v - y) / 100"
    unfolding r y_def by (simp add: diff_divide_distrib)
  have "\<bar>(v - y) / 100\<bar> = \<bar>v - y\<bar> / 100" by simp
  also have "\<dots> \<le> (1 / 2) / 100" using a by (rule divide_right_mono) simp
  finally show ?thesis unfolding e by simp
qed

lemma py_round2_range:
  assumes "0 \<le> x" "x \<le> 100"
  shows "0 \<le> py_round2 x \<and> py_round2 x \<le> 100"
proof -
  define y where "y = x * 100"
  define f where "f = \<lfloor>y\<rfloor>"
  define d where "d = y - of_int f"
  have y: "0 \<le> y" "y \<le> 10000" unfolding y_def using assms by simp_all
  have f0: "0 \<le> f" unfolding f_def using y(1) by simp
  have r: "py_round2 x =
      (if d < 1 / 2 then of_int f
       else if 1 / 2 < d then of_int f + 1
       else if even f then of_int f else of_int f + 1) / 100"
    unfolding py_round2_def Let_def d_def f_def y_def by simp
  have lo: "0 \<le> py_round2 x" unfolding r using f0 by auto
  have hi: "py_round2 x \<le> 100"
  proof (cases "y = 10000")
    case True
    then have "f = 10000" "d = 0" unfolding d_def f_def by simp_all
    then show ?thesis unfolding r by simp
  next
    case False
    with y(2) have "y < 10000" by simp
    then have "f < 10000" unfolding f_def by (simp add: floor_less_iff)
    then have "real_of_int f + 1 \<le> 10000" by linarith
    then show ?thesis unfolding r by auto
  qed
  from lo hi show ?thesis by simp
qed

lemma py_round2_int: "py_round2 (of_int n) = of_int n"
  by (simp add: py_round2_def Let_def)

lemma mean_range:
  assumes "xs \<noteq> []" and "\<forall>x\<in>set xs. lo \<le> x \<and> x \<le> hi"
  shows "lo \<le> mean xs \<and> mean xs \<le> hi"
proof -
  have n: "0 < real (length xs)" using assms(1) by simp
  have "sum_list xs \<le> hi * real (length xs)"
    using assms(2) by (induction xs) (auto simp: algebra_simps)
  moreover have "lo * real (length xs) \<le> sum_list xs"
    using assms(2) by (induction xs) (auto simp: algebra_simps)
  ultimately show ?thesis unfolding mean_def using n
    by (simp add: pos_le_divide_eq pos_divide_le_eq)
qed

lemma count_present_le: "count_present xs t \<le> length xs"
  by (simp add: count_present_def)

lemma weights_sum_one: "sum_list (map snd score_weights) = 1"
  by (simp add: score_weights_def)

lemma weighted_sum_unfold:
  "weighted_sum b =
     0.25 * keyword_relevance b + 0.20 * readability b + 0.15 * user_profile_alignment b
       + 0.15 * content_structure b + 0.15 * seo_optimization b + 0.10 * engagement_potential b"
  by (simp add: weighted_sum_def score_weights_def getattr_score_def breakdown_dict_def)



lemma ScoreBreakdown_Inr:
  "ScoreBreakdown k r p s seo e = Inr b \<Longrightarrow>
     b = \<lparr>keyword_relevance = k, readability = r, user_profile_alignment = p,
          content_structure = s, seo_optimization = seo, engagement_potential = e\<rparr> \<and>
     in_score_range k \<and> in_score_range r \<and> in_score_range p \<and> in_score_range s \<and>
     in_score_range seo \<and> in_score_range e"
  by (auto simp: ScoreBreakdown_def split: if_splits)

lemma comprehensive_Inr:
  assumes "calculate_comprehensive_score rx content profile now = Inr result"
  shows "\<exists>b. ScoreBreakdown (calculate_keyword_relevance rx content profile)
               (calculate_readability_score rx content profile)
               (calculate_user_profile_alignment content profile)
               (calculate_content_structure_score rx content)
               (calculate_seo_score rx content)
               (calculate_engagement_score rx content) = Inr b \<and>
             sr_breakdown result = breakdown_dict b \<and>
             sr_overall_score result = py_round2 (weighted_sum b)"
  using assms unfolding calculate_comprehensive_score_def Let_def
  by (auto split: sum.splits)

text \<open>
  C5. Whenever the scoring engine produces a result, its overall score is the weighted sum
  of the six sub-scores of its breakdown, with the weights 0.25, 0.20, 0.15, 0.15, 0.15 and
  0.10 that add up to 1, rounded to two decimal places: it differs from the weighted sum
  by at most 0.005.
\<close>

theorem overall_score_weighted_sum:
  assumes "calculate_comprehensive_score rx content profile now = Inr result"
  shows "\<exists>b. sr_breakdown result = breakdown_dict b \<and>
           sr_overall_score result =
             py_round2 (0.25 * keyword_relevance b + 0.20 * readability b
                        + 0.15 * user_profile_alignment b + 0.15 * content_structure b
                        + 0.15 * seo_optimization b + 0.10 * engagement_potential b) \<and>
           \<bar>sr_overall_score result -
              (0.25 * keyword_relevance b + 0.20 * readability b
               + 0.15 * user_profile_alignment b + 0.15 * content_structure b
               + 0.15 * seo_optimization b + 0.10 * engagement_potential b)\<bar> \<le> 0.005 \<and>
           map fst score_weights = map fst (breakdown_dict b) \<and>
           sum_list (map snd score_weights) = 1"
proof -
  from comprehensive_Inr[OF assms] obtain b where
    b: "sr_breakdown result = breakdown_dict b"
       "sr_overall_score result = py_round2 (weighted_sum b)" by blast
  have c: "\<bar>sr_overall_score result - weighted_sum b\<bar> \<le> 0.005"
    unfolding b(2) using py_round2_close[of "weighted_sum b"] by simp
  have k: "map fst score_weights = map fst (breakdown_dict b)"
    by (simp add: score_weights_def breakdown_dict_def)
  show ?thesis
    using b c k weights_sum_one unfolding weighted_sum_unfold
    by (intro exI[of _ b]) simp
qed

lemma short_lower: "py_lower ''Short.'' = ''short.''"
  by (simp add: py_lower_def lower_char_def)

lemma short_words: "extract_words short_regex ''Short.'' = [''short'']"
  by (simp add: extract_words_def short_regex_def common_words_def)

lemma short_keywords: "extract_potential_keywords short_regex ''Short.'' = [''short'']"
  by (simp add: extract_potential_keywords_def short_words)

lemma short_sentences: "count_sentences short_regex s = 1"
  by (simp add: count_sentences_def short_regex_def py_strip_def is_space_def)

lemma short_paragraphs: "split_on ''Short.'' blank_line = [''Short.'']"
  by (simp add: split_on_def blank_line_def newline_def starts_with_def)

lemma short_strip: "py_strip ''Short.'' = ''Short.''"
  by (simp add: py_strip_def is_space_def)

lemma short_keyword_score: "calculate_keyword_relevance short_regex ''Short.'' None = 14.25"
  by (simp add: calculate_keyword_relevance_def short_words short_keywords py_round2_def Let_def)


lemma short_syllables: "count_syllables ''short'' = 1"
  by (simp add: count_syllables_def py_lower_def lower_char_def ends_with_def Let_def)

lemma short_paragraph_score: "calculate_paragraph_structure_score short_regex ''Short.'' = 33.3"
  by (simp add: calculate_paragraph_structure_score_def short_paragraphs short_strip
      short_sentences paragraph_sentence_score_def mean_def Let_def)

lemma short_punctuation_score: "calculate_punctuation_score short_regex ''Short.'' = 0"
  by (simp add: calculate_punctuation_score_def short_words Let_def)

lemma short_readability_score: "calculate_readability_score short_regex ''Short.'' None = 71.66"
  by (simp add: calculate_readability_score_def short_words short_sentences short_syllables
      flesch_score_def short_paragraph_score short_punctuation_score
      calculate_word_complexity_score_def target_adjustment_def py_round2_def Let_def)

lemma short_profile_score: "calculate_user_profile_alignment ''Short.'' None = 50"
  by (simp add: calculate_user_profile_alignment_def)

lemma short_structure_score: "calculate_content_structure_score short_regex ''Short.'' = 34.58"
proof -
  have w: "py_words ''Short'' = [''Short'']"
    by (simp add: py_words_def is_space_def)
  have s: "map py_strip (filter (\<lambda>s. py_strip s \<noteq> []) (split_sentences short_regex ''Short.''))
        = [''Short'']"
    by (simp add: short_regex_def py_strip_def is_space_def)
  show ?thesis
    unfolding calculate_content_structure_score_def Let_def s short_paragraphs
    by (simp add: short_strip w short_regex_def mean_def py_round2_def)
qed

lemma short_seo_score: "calculate_seo_score short_regex ''Short.'' = 0.03"
proof -
  have c: "\<not> py_contains blank_line ''Short.''"
    by (simp add: py_contains_def py_find_def blank_line_def newline_def starts_with_def)
  have k: "\<not> py_contains ''conclusion'' ''short.''" "\<not> py_contains ''summary'' ''short.''"
    by (simp_all add: py_contains_def py_find_def starts_with_def)
  show ?thesis
    unfolding calculate_seo_score_def Let_def short_words short_keywords short_lower
    using c k
    by (simp add: short_regex_def count_true_def mean_def py_round2_def)
qed

lemma short_engagement_score: "calculate_engagement_score short_regex ''Short.'' = 0"
proof -
  have p: "count_present positive_words ''short.'' = 0"
    by (simp add: count_present_def positive_words_def py_contains_def py_find_def starts_with_def)
  have n: "count_present negative_words ''short.'' = 0"
    by (simp add: count_present_def negative_words_def py_contains_def py_find_def starts_with_def)
  show ?thesis
    unfolding calculate_engagement_score_def Let_def short_words short_lower p n
    by (simp add: short_regex_def mean_def py_round2_def cta_patterns_def personal_pronouns_def)
qed

lemma short_breakdown:
  "ScoreBreakdown 14.25 71.66 50 34.58 0.03 0 =
     Inr \<lparr>keyword_relevance = 14.25, readability = 71.66, user_profile_alignment = 50,
          content_structure = 34.58, seo_optimization = 0.03, engagement_potential = 0\<rparr>"
  by (simp add: ScoreBreakdown_def in_score_range_def)

lemma short_comprehensive:
  "\<exists>recs. calculate_comprehensive_score short_regex ''Short.'' None now =
     Inr \<lparr>sr_overall_score = 30.59,
          sr_breakdown =
            [(''keyword_relevance'', 14.25), (''readability'', 71.66),
             (''user_profile_alignment'', 50), (''content_structure'', 34.58),
             (''seo_optimization'', 0.03), (''engagement_potential'', 0)],
          sr_recommendations = recs, sr_analysis_timestamp = now\<rparr>"
  unfolding calculate_comprehensive_score_def Let_def short_keyword_score
    short_readability_score short_profile_score short_structure_score short_seo_score
    short_engagement_score short_breakdown
  by (simp add: weighted_sum_unfold breakdown_dict_def py_round2_def)

lemma keyword_relevance_range:
  "in_score_range (calculate_keyword_relevance rx content profile)"
proof (cases "length (extract_words rx content) = 0")
  case True
  then show ?thesis by (simp add: calculate_keyword_relevance_def in_score_range_def)
next
  case False
  define d where "d = max 0 (min 100 (100 * (1 - \<bar>real (length (extract_potential_keywords rx content))
      / real (length (extract_words rx content)) * 100 - 2\<bar> / 10)))"
  define v where "v = min 100 (real (length (remdups (extract_potential_keywords rx content))) * 5)"
  define p where "p = (case profile of None \<Rightarrow> 50 | Some p \<Rightarrow>
      if preferred_topics p = [] then 50
      else min 100 (real (topic_matches (preferred_topics p) content) * 25))"
  have d: "0 \<le> d" "d \<le> 100" unfolding d_def by simp_all
  have v: "0 \<le> v" "v \<le> 100" unfolding v_def by simp_all
  have p: "0 \<le> p" "p \<le> 100" unfolding p_def by (auto split: option.splits)
  have e: "calculate_keyword_relevance rx content profile = py_round2 (d * 0.4 + v * 0.35 + p * 0.25)"
    using False unfolding calculate_keyword_relevance_def Let_def d_def v_def p_def by simp
  have "0 \<le> d * 0.4 + v * 0.35 + p * 0.25" "d * 0.4 + v * 0.35 + p * 0.25 \<le> 100"
    using d v p by simp_all
  then show ?thesis unfolding e in_score_range_def by (rule py_round2_range)
qed

lemma readability_range:
  "in_score_range (calculate_readability_score rx content profile)"
proof -
  have "in_score_range (py_round2 (max 0 (min 100 x)))" for x
    unfolding in_score_range_def by (rule py_round2_range) simp_all
  then show ?thesis
    unfolding calculate_readability_score_def Let_def
    by (simp add: in_score_range_def)
qed

lemma remdups_ratio:
  "xs \<noteq> [] \<Longrightarrow> real (length (remdups xs)) / real (length xs) \<le> 1"
  by (simp add: length_remdups_leq)

lemma content_structure_range:
  "in_score_range (calculate_content_structure_score rx content)"
proof -
  define pc where "pc = length (filter (\<lambda>p. py_strip p \<noteq> []) (split_on content blank_line))"
  define para where "para = (if 3 \<le> pc \<and> pc \<le> 8 then 100
             else if pc < 3 then max 0 (real pc * 33.3)
             else max 0 (100 - (real pc - 8) * 10))"
  define sentences where
    "sentences = map py_strip (filter (\<lambda>s. py_strip s \<noteq> []) (split_sentences rx content))"
  define ls where "ls = map (\<lambda>s. length (py_words s)) sentences"
  define ss where "ss = (if sentences = [] then []
             else [max 0 (min 100 (100 * (1 - \<bar>real (sum_list ls) / real (length ls) - 20\<bar> / 20))),
                   real (length (remdups ls)) / real (length ls) * 100])"
  define h where "h = min 100 (real (count_headings rx content) * 25)"
  have para: "0 \<le> para \<and> para \<le> 100"
  proof -
    have "pc < 3 \<Longrightarrow> real pc * 33.3 \<le> 100"
    proof -
      assume "pc < 3"
      then have "real pc \<le> 2" by simp
      then show ?thesis by simp
    qed
    moreover have "8 < pc \<Longrightarrow> 100 - (real pc - 8) * 10 \<le> 100" by simp
    ultimately show ?thesis unfolding para_def by auto
  qed
  have ss: "\<forall>x\<in>set ss. 0 \<le> x \<and> x \<le> 100"
  proof (cases "sentences = []")
    case True
    then show ?thesis by (simp add: ss_def)
  next
    case False
    then have "ls \<noteq> []" by (simp add: ls_def)
    then have "real (length (remdups ls)) / real (length ls) \<le> 1" by (rule remdups_ratio)
    then have "real (length (remdups ls)) / real (length ls) * 100 \<le> 1 * 100"
      by (rule mult_right_mono) simp
    then have "0 \<le> real (length (remdups ls)) / real (length ls) * 100
        \<and> real (length (remdups ls)) / real (length ls) * 100 \<le> 100" by simp
    with False show ?thesis by (simp add: ss_def)
  qed
  have h: "0 \<le> h \<and> h \<le> 100" unfolding h_def by simp
  have e: "calculate_content_structure_score rx content = py_round2 (mean ([para] @ ss @ [h]))"
    unfolding calculate_content_structure_score_def Let_def para_def pc_def ss_def ls_def
      sentences_def h_def by simp
  have "0 \<le> mean ([para] @ ss @ [h]) \<and> mean ([para] @ ss @ [h]) \<le> 100"
    by (rule mean_range) (use para ss h in auto)
  then show ?thesis unfolding e in_score_range_def using py_round2_range by blast
qed

lemma count_true_le: "count_true bs \<le> length bs"
  by (simp add: count_true_def)

lemma count_true3: "real (count_true [a, b, c]) \<le> 3"
  using count_true_le[of "[a, b, c]"] by simp

lemma count_true2: "real (count_true [a, b]) \<le> 2"
  using count_true_le[of "[a, b]"] by simp

lemma seo_range: "in_score_range (calculate_seo_score rx content)"
proof -
  define wc where "wc = length (extract_words rx content)"
  define l where "l = (if 800 \<le> wc \<and> wc \<le> 2000 then 100
             else if wc < 800 then (real wc / 800) * 100
             else max 0 (100 - (real wc - 2000) / 100))"
  define kd where "kd = (real (length (extract_potential_keywords rx content)) / real (max 1 wc)) * 100"
  define d where "d = (if 1 \<le> kd \<and> kd \<le> 3 then 100 else max 0 (100 - \<bar>kd - 2\<bar> * 25))"
  define m where "m = real (count_true [match_title rx (first_piece content [newline]),
      (if py_contains blank_line content then length (first_piece content blank_line) > 100 else False),
      (py_contains ''conclusion'' (py_lower content) \<or> py_contains ''summary'' (py_lower content))]) * 33.3"
  define s where "s = real (count_true [search_lists rx content, search_emphasis rx content]) * 50"
  have l: "0 \<le> l \<and> l \<le> 100" unfolding l_def by auto
  have d: "0 \<le> d \<and> d \<le> 100" unfolding d_def by auto
  have m: "0 \<le> m \<and> m \<le> 100"
    unfolding m_def using count_true3 [of "match_title rx (first_piece content [newline])"
        "if py_contains blank_line content then length (first_piece content blank_line) > 100 else False"
        "py_contains ''conclusion'' (py_lower content) \<or> py_contains ''summary'' (py_lower content)"]
    by linarith
  have s: "0 \<le> s \<and> s \<le> 100"
    unfolding s_def using count_true2 [of "search_lists rx content" "search_emphasis rx content"]
    by linarith
  have e: "calculate_seo_score rx content = py_round2 (mean [l, d, m, s])"
    unfolding calculate_seo_score_def Let_def l_def d_def m_def s_def kd_def wc_def by simp
  have "0 \<le> mean [l, d, m, s] \<and> mean [l, d, m, s] \<le> 100"
    by (rule mean_range) (use l d m s in auto)
  then show ?thesis unfolding e in_score_range_def using py_round2_range by blast
qed

lemma engagement_range: "in_score_range (calculate_engagement_score rx content)"
proof -
  define q where "q = min 100 (real (count_questions rx content)
      / max 1 (real (length (extract_words rx content)) / 100) * 50)"
  define c where "c = min 100 (real (sum_list (map (\<lambda>pattern. count_phrase rx pattern content) cta_patterns)) * 25)"
  define em where "em = min 100 (real (count_present positive_words (py_lower content)
      + count_present negative_words (py_lower content)) * 10)"
  define pr where "pr = min 100 (real (sum_list (map (\<lambda>pronoun. count_phrase rx pronoun content) personal_pronouns)) * 5)"
  have q: "0 \<le> q \<and> q \<le> 100" unfolding q_def by simp
  have c: "0 \<le> c \<and> c \<le> 100" unfolding c_def by simp
  have em: "0 \<le> em \<and> em \<le> 100" unfolding em_def by simp
  have pr: "0 \<le> pr \<and> pr \<le> 100" unfolding pr_def by simp
  have e: "calculate_engagement_score rx content = py_round2 (mean [q, c, em, pr])"
    unfolding calculate_engagement_score_def Let_def q_def c_def em_def pr_def by simp
  have "0 \<le> mean [q, c, em, pr] \<and> mean [q, c, em, pr] \<le> 100"
    by (rule mean_range) (use q c em pr in auto)
  then show ?thesis unfolding e in_score_range_def using py_round2_range by blast
qed

lemma py_round2_le_int:
  assumes "x \<le> of_int n"
  shows "py_round2 x \<le> of_int n"
proof -
  define y where "y = x * 100"
  define f where "f = \<lfloor>y\<rfloor>"
  define d where "d = y - of_int f"
  have y: "y \<le> of_int (100 * n)" unfolding y_def using assms by simp
  have r: "py_round2 x =
      (if d < 1 / 2 then of_int f
       else if 1 / 2 < d then of_int f + 1
       else if even f then of_int f else of_int f + 1) / 100"
    unfolding py_round2_def Let_def d_def f_def y_def by simp
  show ?thesis
  proof (cases "y = of_int (100 * n)")
    case True
    then have f: "f = 100 * n" unfolding f_def by (simp only: floor_of_int)
    with True have "d = 0" unfolding d_def by simp
    with f show ?thesis unfolding r by simp
  next
    case False
    with y have "y < of_int (100 * n)" by simp
    then have "f < 100 * n" unfolding f_def by (simp add: floor_less_iff)
    then have "real_of_int f + 1 \<le> real_of_int (100 * n)" by linarith
    then show ?thesis unfolding r by auto
  qed
qed

lemma py_round2_ge_int:
  assumes "of_int n \<le> x"
  shows "of_int n \<le> py_round2 x"
proof -
  define y where "y = x * 100"
  define f where "f = \<lfloor>y\<rfloor>"
  define d where "d = y - of_int f"
  have "of_int (100 * n) \<le> y" unfolding y_def using assms by simp
  then have "100 * n \<le> f" unfolding f_def by (simp add: le_floor_iff)
  then have f: "real_of_int (100 * n) \<le> real_of_int f" by linarith
  have r: "py_round2 x =
      (if d < 1 / 2 then of_int f
       else if 1 / 2 < d then of_int f + 1
       else if even f then of_int f else of_int f + 1) / 100"
    unfolding py_round2_def Let_def d_def f_def y_def by simp
  show ?thesis unfolding r using f by auto
qed

lemma style_alignment_range:
  "0 \<le> calculate_style_alignment content style \<and> calculate_style_alignment content style \<le> 106"
proof -
  have five: "real (count_present [a, b, c, d, e] t) \<le> 5" for a b c d e t
    using count_present_le[of "[a, b, c, d, e]" t] by simp
  have seven: "real (count_present [a, b, c, d, e, f, g] t) \<le> 7" for a b c d e f g t
    using count_present_le[of "[a, b, c, d, e, f, g]" t] by simp
  have formal: "max 0 (50 + real fc * 10 - real ic * 5) \<le> 106" if "real fc \<le> 5" for fc ic :: nat
    using that by simp
  have casual: "max 0 (50 + real cc * 8 - real fc * 5) \<le> 106" if "real cc \<le> 7" for cc fc :: nat
    using that by simp
  show ?thesis
    unfolding calculate_style_alignment_def Let_def
    using formal[OF five] casual[OF seven]
    by (auto simp: min_def)
qed

lemma style_alignment_other_range:
  assumes "style \<noteq> ''casual''"
  shows "calculate_style_alignment content style \<le> 100"
proof -
  have five: "real (count_present [a, b, c, d, e] t) \<le> 5" for a b c d e t
    using count_present_le[of "[a, b, c, d, e]" t] by simp
  have formal: "max 0 (50 + real fc * 10 - real ic * 5) \<le> 100" if "real fc \<le> 5" for fc ic :: nat
    using that by simp
  show ?thesis
    unfolding calculate_style_alignment_def Let_def
    using formal[OF five] assms
    by (auto simp: min_def)
qed

lemma audience_loop_range:
  "0 \<le> best \<Longrightarrow> best \<le> 100 \<Longrightarrow>
   0 \<le> audience_loop table content_lower target best
   \<and> audience_loop table content_lower target best \<le> 100"
proof (induction table arbitrary: best)
  case Nil
  then show ?case by simp
next
  case (Cons a table)
  obtain audience_type kws where a: "a = (audience_type, kws)" by (cases a)
  define ms where "ms = min 100 (real (count_present kws content_lower) * 20)"
  have ms: "0 \<le> ms" "ms \<le> 100" unfolding ms_def by simp_all
  define best' where "best' =
      (if py_contains (py_lower target) audience_type then max best ms
       else if audience_type = ''general'' then max best (ms * 0.7) else best)"
  have "0 \<le> best'" "best' \<le> 100"
    unfolding best'_def using Cons.prems ms by auto
  from Cons.IH[OF this] show ?case
    unfolding a best'_def ms_def by (simp add: Let_def)
qed

lemma user_profile_alignment_range:
  "0 \<le> calculate_user_profile_alignment content profile
   \<and> calculate_user_profile_alignment content profile \<le> 106"
proof (cases profile)
  case None
  then show ?thesis by (simp add: calculate_user_profile_alignment_def)
next
  case (Some p)
  define ts where "ts = (if preferred_topics p = [] then []
                 else [min 100 (real (topic_matches (preferred_topics p) content)
                                  / real (length (preferred_topics p)) * 100)])"
  define es where "es = (if expertise_areas p = [] then []
                 else [min 100 (real (topic_matches (expertise_areas p) content)
                                  / real (length (expertise_areas p)) * 100)])"
  define au where "au = (case target_audience p of None \<Rightarrow> []
                 | Some target \<Rightarrow>
                     if target = [] then [] else [calculate_audience_alignment content target])"
  define sc where "sc = ts @ [calculate_style_alignment content (writing_style p)] @ es @ au"
  have ts: "\<forall>x\<in>set ts. 0 \<le> x \<and> x \<le> 106" unfolding ts_def by auto
  have es: "\<forall>x\<in>set es. 0 \<le> x \<and> x \<le> 106" unfolding es_def by auto
  have al: "0 \<le> calculate_audience_alignment content t
      \<and> calculate_audience_alignment content t \<le> 106" for t
    unfolding calculate_audience_alignment_def
    using audience_loop_range[of 0 audience_keywords "py_lower content" t] by simp
  have au: "\<forall>x\<in>set au. 0 \<le> x \<and> x \<le> 106"
    unfolding au_def using al by (auto split: option.splits)
  have "sc \<noteq> []" unfolding sc_def by simp
  moreover have "\<forall>x\<in>set sc. 0 \<le> x \<and> x \<le> 106"
    unfolding sc_def using ts es au style_alignment_range[of content "writing_style p"] by auto
  ultimately have m: "0 \<le> mean sc \<and> mean sc \<le> 106" by (rule mean_range)
  have e: "calculate_user_profile_alignment content profile = py_round2 (mean sc)"
    unfolding calculate_user_profile_alignment_def Some Let_def sc_def ts_def es_def au_def
    by simp
  show ?thesis unfolding e
    using py_round2_ge_int[of 0 "mean sc"] py_round2_le_int[of "mean sc" 106] m by simp
qed

lemma lower_casual: "py_lower casual_text = casual_text"
  by (simp add: casual_text_def py_lower_def lower_char_def)

lemma casual_style_score: "calculate_style_alignment casual_text ''casual'' = 106"
  unfolding calculate_style_alignment_def lower_casual Let_def
  by (simp add: casual_text_def count_present_def py_contains_def py_find_def starts_with_def)

text \<open>
  C1. On the text \<^verbatim>\<open>don't won't can't it's we're you'll i'll\<close> and a profile with the
  casual writing style and no topics, expertise areas or audience, the profile alignment
  that the engine computes is 106, and the engine then raises the validation error of the
  breakdown instead of returning scores, whatever the regular expression library answers.
\<close>

theorem casual_alignment_exceeds_range:
  "calculate_user_profile_alignment casual_text (Some example_profile) = 106 \<and>
   \<not> in_score_range (calculate_user_profile_alignment casual_text (Some example_profile)) \<and>
   calculate_comprehensive_score rx casual_text (Some example_profile) now = Inl ValidationError"
proof -
  have a: "calculate_user_profile_alignment casual_text (Some example_profile) = 106"
    unfolding calculate_user_profile_alignment_def
    by (simp add: example_profile_def casual_style_score mean_def py_round2_def Let_def)
  then have b: "\<not> in_score_range (calculate_user_profile_alignment casual_text (Some example_profile))"
    by (simp add: in_score_range_def)
  have "calculate_comprehensive_score rx casual_text (Some example_profile) now = Inl ValidationError"
    unfolding calculate_comprehensive_score_def Let_def a
    by (simp add: ScoreBreakdown_def in_score_range_def)
  with a b show ?thesis by simp
qed

text \<open>
  The other five sub-scores stay within 0 and 100 on every input, and the profile alignment
  within 0 and 106; a result that is produced has all six sub-scores and the overall score
  within 0 and 100.
\<close>

lemma produced_scores_in_range:
  assumes "calculate_comprehensive_score rx content profile now = Inr result"
  shows "(\<forall>(key, v)\<in>set (sr_breakdown result). in_score_range v)
         \<and> in_score_range (sr_overall_score result)"
proof -
  from comprehensive_Inr[OF assms] obtain b where
    b: "ScoreBreakdown (calculate_keyword_relevance rx content profile)
               (calculate_readability_score rx content profile)
               (calculate_user_profile_alignment content profile)
               (calculate_content_structure_score rx content)
               (calculate_seo_score rx content)
               (calculate_engagement_score rx content) = Inr b"
      "sr_breakdown result = breakdown_dict b"
      "sr_overall_score result = py_round2 (weighted_sum b)" by blast
  from ScoreBreakdown_Inr[OF b(1)] have r:
    "in_score_range (keyword_relevance b)" "in_score_range (readability b)"
    "in_score_range (user_profile_alignment b)" "in_score_range (content_structure b)"
    "in_score_range (seo_optimization b)" "in_score_range (engagement_potential b)"
    by auto
  then have "0 \<le> weighted_sum b \<and> weighted_sum b \<le> 100"
    unfolding weighted_sum_unfold in_score_range_def by auto
  then have "in_score_range (py_round2 (weighted_sum b))"
    unfolding in_score_range_def using py_round2_range by blast
  with r b(2,3) show ?thesis by (simp add: breakdown_dict_def)
qed

subsection \<open>Scoring and refinement in the workflow\<close>

theorem overall_score_weighted_sum_witness:
  "\<exists>result. calculate_comprehensive_score short_regex ''Short.'' None 0 = Inr result \<and>
     sr_overall_score result = 30.59 \<and>
     \<bar>sr_overall_score result -
        (0.25 * 14.25 + 0.20 * 71.66 + 0.15 * 50 + 0.15 * 34.58 + 0.15 * 0.03 + 0.10 * 0)\<bar>
       \<le> 0.005"
proof -
  from short_comprehensive[of 0] obtain recs where
    "calculate_comprehensive_score short_regex ''Short.'' None 0 =
     Inr \<lparr>sr_overall_score = 30.59,
          sr_breakdown =
            [(''keyword_relevance'', 14.25), (''readability'', 71.66),
             (''user_profile_alignment'', 50), (''content_structure'', 34.58),
             (''seo_optimization'', 0.03), (''engagement_potential'', 0)],
          sr_recommendations = recs, sr_analysis_timestamp = 0\<rparr>" by blast
  then obtain result where
    res: "calculate_comprehensive_score short_regex ''Short.'' None 0 = Inr result"
    and ov: "sr_overall_score result = 30.59"
    and bd: "sr_breakdown result =
            [(''keyword_relevance'', 14.25), (''readability'', 71.66),
             (''user_profile_alignment'', 50), (''content_structure'', 34.58),
             (''seo_optimization'', 0.03), (''engagement_potential'', 0)]"
    by simp
  from overall_score_weighted_sum [OF res] obtain b where
    b: "sr_breakdown result = breakdown_dict b"
    and c: "\<bar>sr_overall_score result -
              (0.25 * keyword_relevance b + 0.20 * readability b
               + 0.15 * user_profile_alignment b + 0.15 * content_structure b
               + 0.15 * seo_optimization b + 0.10 * engagement_potential b)\<bar> \<le> 0.005"
    by blast
  from b bd have "keyword_relevance b = 14.25" "readability b = 71.66"
    "user_profile_alignment b = 50" "content_structure b = 34.58"
    "seo_optimization b = 0.03" "engagement_potential b = 0"
    by (simp_all add: breakdown_dict_def)
  with c have "\<bar>sr_overall_score result -
        (0.25 * 14.25 + 0.20 * 71.66 + 0.15 * 50 + 0.15 * 34.58 + 0.15 * 0.03 + 0.10 * 0)\<bar>
       \<le> 0.005" by simp
  with res ov show ?thesis by blast
qed

lemma breakdown_has_no_seo_key: "map_of (breakdown_dict b) ''seo'' = None"
  by (simp add: breakdown_dict_def)

lemma score_node_no_seo_key:
  assumes "map_of (current_score st) ''seo'' = None"
  shows "map_of (current_score (score_content_node rx st now)) ''seo'' = None"
proof (cases "state_profile st")
  case (Inl e)
  with assms show ?thesis by (simp add: score_content_node_def)
next
  case profile: (Inr profile)
  show ?thesis
  proof (cases "calculate_comprehensive_score rx (current_draft st) profile now")
    case (Inl e)
    with assms profile show ?thesis by (simp add: score_content_node_def)
  next
    case (Inr result)
    from comprehensive_Inr[OF Inr] obtain b where "sr_breakdown result = breakdown_dict b"
      by blast
    with Inr profile show ?thesis
      by (simp add: score_content_node_def breakdown_has_no_seo_key)
  qed
qed

lemma refine_keyword_without_seo_key:
  assumes "map_of current ''seo'' = None"
  shows "refine_keyword current keyword =
     keyword\<lparr>kw_relevance_score := Some (min 1
        (if score_get current ''readability'' 70 < 60
            \<and> any_term_in [''simple'', ''clear'', ''easy''] (py_lower (keyword_text keyword))
         then (case kw_relevance_score keyword of None \<Rightarrow> 0.5 | Some r \<Rightarrow> r) * 1.3
         else (case kw_relevance_score keyword of None \<Rightarrow> 0.5 | Some r \<Rightarrow> r)))\<rparr>"
  using assms by (simp add: refine_keyword_def score_get_def Let_def)

lemma short_score_node:
  "current_score (score_content_node short_regex short_state now) =
     [(''keyword_relevance'', 14.25), (''readability'', 71.66),
      (''user_profile_alignment'', 50), (''content_structure'', 34.58),
      (''seo_optimization'', 0.03), (''engagement_potential'', 0)]"
proof -
  from short_comprehensive[of now] obtain recs where
    "calculate_comprehensive_score short_regex ''Short.'' None now =
     Inr \<lparr>sr_overall_score = 30.59,
          sr_breakdown =
            [(''keyword_relevance'', 14.25), (''readability'', 71.66),
             (''user_profile_alignment'', 50), (''content_structure'', 34.58),
             (''seo_optimization'', 0.03), (''engagement_potential'', 0)],
          sr_recommendations = recs, sr_analysis_timestamp = now\<rparr>" by blast
  then show ?thesis by (simp add: score_content_node_def state_profile_def short_state_def)
qed

text \<open>
  C4. After the ScoreContent stage has scored the draft \<^verbatim>\<open>Short.\<close>, the SEO sub-score of
  the current score is 0.03, which is below 60, and the keyword \<^verbatim>\<open>search engine\<close>
  contains \<^verbatim>\<open>search\<close>; the refinement still returns it with its relevance 0.5, not
  multiplied by 1.2: the current score has no key \<^verbatim>\<open>seo\<close>, so the default 70 is read.
\<close>

theorem seo_boost_not_applied:
  "score_get (current_score (score_content_node short_regex short_state now)) ''seo_optimization'' 70
     = 0.03 \<and>
   any_term_in [''keyword'', ''search'', ''optimize''] (py_lower (keyword_text search_keyword)) \<and>
   score_get (current_score (score_content_node short_regex short_state now)) ''seo'' 70 = 70 \<and>
   contextual_refinement [search_keyword] (current_draft short_state) (cursor_position short_state)
     (current_score (score_content_node short_regex short_state now)) = [search_keyword]"
proof -
  have l: "py_lower (keyword_text search_keyword) = ''search engine''"
    by (simp add: search_keyword_def keyword_text_def py_lower_def lower_char_def)
  have a: "any_term_in [''keyword'', ''search'', ''optimize''] ''search engine''"
    by (simp add: any_term_in_def py_contains_def py_find_def starts_with_def)
  have n: "\<not> any_term_in [''simple'', ''clear'', ''easy''] ''search engine''"
    by (simp add: any_term_in_def py_contains_def py_find_def starts_with_def)
  have r: "refine_keyword (current_score (score_content_node short_regex short_state now))
             search_keyword = search_keyword"
    unfolding refine_keyword_def Let_def l short_score_node
    using n by (simp add: score_get_def search_keyword_def)
  show ?thesis
    unfolding contextual_refinement_def Let_def
    using a r l by (simp add: short_score_node score_get_def)
qed

text \<open>
  What the refinement does on every input: at most 10 keywords come back, each with a
  relevance of at most 1, in order of falling relevance.
\<close>

lemma refine_keyword_relevance: "sort_relevance (refine_keyword current keyword) \<le> 1"
  by (simp add: refine_keyword_def sort_relevance_def Let_def)

lemma contextual_refinement_shape:
  "length (contextual_refinement keywords content cursor current) \<le> 10 \<and>
   sorted (map (\<lambda>x. - sort_relevance x) (contextual_refinement keywords content cursor current)) \<and>
   (\<forall>k\<in>set (contextual_refinement keywords content cursor current). sort_relevance k \<le> 1)"
proof -
  let ?s = "sort_key (\<lambda>x. - sort_relevance x) (map (refine_keyword current) keywords)"
  have "sorted (map (\<lambda>x. - sort_relevance x) ?s)" by (rule sorted_sort_key)
  then have s: "sorted (map (\<lambda>x. - sort_relevance x) (take 10 ?s))"
    by (simp add: take_map[symmetric] sorted_wrt_take)
  have "\<forall>k\<in>set ?s. sort_relevance k \<le> 1"
    using refine_keyword_relevance by auto
  then have "\<forall>k\<in>set (take 10 ?s). sort_relevance k \<le> 1"
    by (meson in_set_takeD)
  with s show ?thesis by (simp add: contextual_refinement_def Let_def)
qed

subsection \<open>The AnalyzeDraft stage\<close>

text \<open>
  C3 as stated fails. With a service that raises at every call the stage makes one call
  and leaves the analysis history empty, where the stage of the specification makes four
  calls and records an entry with an empty analysis.
\<close>

theorem analyze_draft_counterexample:
  "analyze_draft_node failing_llm 0 short_state 0
     \<noteq> analyze_draft_as_specified failing_llm (\<lambda>k. 0) 0 short_state 0 \<and>
   analysis_history (fst (analyze_draft_node failing_llm 0 short_state 0)) = [] \<and>
   snd (analyze_draft_node failing_llm 0 short_state 0) = 1 \<and>
   analysis_history (fst (analyze_draft_as_specified failing_llm (\<lambda>k. 0) 0 short_state 0))
     = [analysis_entry_of 0 empty_analysis short_state] \<and>
   snd (analyze_draft_as_specified failing_llm (\<lambda>k. 0) 0 short_state 0) = 4"
proof -
  have a: "analyze_draft_node failing_llm 0 short_state 0 = (short_state, 1)"
    by (simp add: analyze_draft_node_def state_profile_def short_state_def failing_llm_def)
  have d: "retry_delay analyze_retry_config (\<lambda>k. 0) 0 = Inr (1 / 2)"
    "retry_delay analyze_retry_config (\<lambda>k. 0) (Suc 0) = Inr 1"
    "retry_delay analyze_retry_config (\<lambda>k. 0) (Suc (Suc 0)) = Inr 2"
    by (simp_all add: retry_delay_def analyze_retry_config_def pow_overflows_def
        float_overflow_bound_def)
  have n: "nat (max_retries analyze_retry_config + 1) = Suc (Suc (Suc (Suc 0)))"
    "max_retries analyze_retry_config = 3"
    by (simp_all add: analyze_retry_config_def)
  have r: "retry_with_exponential_backoff analyze_retry_config (\<lambda>e. True)
             (Some ''recommend_keywords'')
             (\<lambda>k. failing_llm (0 + k) (current_draft short_state)
                     (get_cursor_context (current_draft short_state) (cursor_position short_state))
                     (user_profile short_state)) (\<lambda>k. 0)
           = (RetryError (Some (OtherError ''service unavailable'')), 4, [1 / 2, 1, 2])"
    unfolding retry_with_exponential_backoff_def n(1)
    by (simp add: n(2) d failing_llm_def)
  have b: "analyze_draft_as_specified failing_llm (\<lambda>k. 0) 0 short_state 0 =
      (short_state\<lparr>analysis_history := [analysis_entry_of 0 empty_analysis short_state]\<rparr>, 4)"
    unfolding analyze_draft_as_specified_def Let_def r
    by (simp add: run_result_def run_attempts_def short_state_def)
  show ?thesis unfolding a b by (simp add: short_state_def)
qed

text \<open>
  C3, amended. The stage calls the service at most once and without the retry executor:
  exactly once when the profile of the state is valid, not at all when it is not. When the
  call raises, or the profile is invalid, the stage returns the run state unchanged, so no
  analysis entry is recorded and the workflow goes on; when the call returns an analysis,
  the stage appends the entry of timestamp, analysis and draft length to the analysis
  history.
\<close>

theorem analyze_draft_node_spec:
  "(\<forall>e. state_profile st = Inl e \<longrightarrow> analyze_draft_node llm calls st now = (st, calls)) \<and>
   (\<forall>profile. state_profile st = Inr profile \<longrightarrow>
      snd (analyze_draft_node llm calls st now) = Suc calls \<and>
      (\<forall>e. llm calls (current_draft st)
              (get_cursor_context (current_draft st) (cursor_position st)) profile
            = Raises e \<longrightarrow>
           fst (analyze_draft_node llm calls st now) = st) \<and>
      (\<forall>analysis. llm calls (current_draft st)
              (get_cursor_context (current_draft st) (cursor_position st)) profile
            = Returns analysis \<longrightarrow>
           fst (analyze_draft_node llm calls st now) =
             st\<lparr>analysis_history :=
                  analysis_history st @ [analysis_entry_of now analysis st]\<rparr>))"
  by (simp add: analyze_draft_node_def split: outcome.splits)

theorem analyze_draft_node_spec_witness:
  "state_profile short_state = Inr None \<and>
   failing_llm 0 (current_draft short_state)
       (get_cursor_context (current_draft short_state) (cursor_position short_state)) None
     = Raises (OtherError ''service unavailable'') \<and>
   fst (analyze_draft_node failing_llm 0 short_state 0) = short_state \<and>
   snd (analyze_draft_node failing_llm 0 short_state 0) = Suc 0"
proof -
  have p: "state_profile short_state = Inr None"
    by (simp add: state_profile_def short_state_def)
  have h: "failing_llm 0 (current_draft short_state)
       (get_cursor_context (current_draft short_state) (cursor_position short_state)) None
     = Raises (OtherError ''service unavailable'')"
    by (simp add: failing_llm_def)
  from analyze_draft_node_spec [of short_state failing_llm 0 0] p h
  have "fst (analyze_draft_node failing_llm 0 short_state 0) = short_state"
    and "snd (analyze_draft_node failing_llm 0 short_state 0) = Suc 0"
    by blast+
  with p h show ?thesis by simp
qed

subsection \<open>Sanitising analyzer responses\<close>

lemma dict_set_same: "map_of d key = Some v \<Longrightarrow> dict_set key v d = d"
  by (induction d) (auto split: if_splits)

lemma map_of_dict_set: "map_of (dict_set key v d) k = (if k = key then Some v else map_of d k)"
  by (induction d) auto

lemma same_at_refl: "same_at key y y"
  by (simp add: same_at_def)

lemma same_at_trans: "same_at key x y \<Longrightarrow> same_at key y z \<Longrightarrow> same_at key x z"
  by (auto simp: same_at_def)

lemma at_key_dict:
  "at_key key body (JDict d) =
     (case map_of d key of
        None \<Rightarrow> (JDict d, None)
      | Some v \<Rightarrow> (JDict (dict_set key (fst (body v)) d), snd (body v)))"
  by (auto simp: at_key_def py_in_def py_getitem_def py_setitem_def split: option.splits prod.splits)

lemma at_key_not_dict: "\<forall>d. obj \<noteq> JDict d \<Longrightarrow> fst (at_key key body obj) = obj"
  by (cases obj) (auto simp: at_key_def py_in_def py_getitem_def split: bool.splits)

lemma stable_at_key:
  assumes "stable body"
  shows "stable (at_key key body)"
  unfolding stable_def
proof
  fix x
  show "at_key key body (fst (at_key key body x)) = at_key key body x"
  proof (cases "\<exists>d. x = JDict d")
    case False
    then have "fst (at_key key body x) = x" by (simp add: at_key_not_dict)
    then show ?thesis by simp
  next
    case True
    then obtain d where x: "x = JDict d" by blast
    show ?thesis
    proof (cases "map_of d key")
      case None
      then show ?thesis by (simp add: x at_key_dict)
    next
      case (Some v)
      from assms have b: "body (fst (body v)) = body v" by (simp add: stable_def)
      have "dict_set key (fst (body v)) (dict_set key (fst (body v)) d)
              = dict_set key (fst (body v)) d"
        by (rule dict_set_same) (simp add: map_of_dict_set)
      with Some b show ?thesis by (simp add: x at_key_dict map_of_dict_set)
    qed
  qed
qed

lemma at_key_fixed_frame:
  assumes "at_key key body y = (y, None)" and "same_at key y z"
  shows "at_key key body z = (z, None)"
proof (cases "y = z")
  case True
  with assms(1) show ?thesis by simp
next
  case False
  with assms(2) obtain d d' where
    d: "y = JDict d" "z = JDict d'" "map_of d key = map_of d' key"
    by (auto simp: same_at_def)
  show ?thesis
  proof (cases "map_of d key")
    case None
    with d show ?thesis by (simp add: at_key_dict)
  next
    case (Some v)
    with assms(1) d(1) have
      e: "dict_set key (fst (body v)) d = d" "snd (body v) = None"
      by (simp_all add: at_key_dict)
    have "map_of (dict_set key (fst (body v)) d) key = Some (fst (body v))"
      by (simp add: map_of_dict_set)
    with e(1) Some have fv: "fst (body v) = v" by simp
    from Some d(3) have "map_of d' key = Some v" by simp
    then show ?thesis using fv e(2) d(2) by (simp add: at_key_dict dict_set_same)
  qed
qed

lemma leaves_key_at_key:
  assumes "key \<noteq> key'"
  shows "leaves_key key (at_key key' body)"
  unfolding leaves_key_def
proof
  fix y
  show "same_at key y (fst (at_key key' body y))"
  proof (cases "\<exists>d. y = JDict d")
    case False
    then show ?thesis by (simp add: at_key_not_dict same_at_refl)
  next
    case True
    then obtain d where "y = JDict d" by blast
    with assms show ?thesis
      by (auto simp: at_key_dict same_at_def map_of_dict_set split: option.splits)
  qed
qed

lemma run_seq_leaves_key:
  assumes "\<forall>g\<in>set fs. leaves_key key g"
  shows "same_at key y (fst (run_seq fs y))"
  using assms
proof (induction fs arbitrary: y)
  case Nil
  then show ?case by (simp add: same_at_refl)
next
  case (Cons f fs)
  obtain z e where f: "f y = (z, e)" by (cases "f y")
  from Cons.prems have a: "same_at key y z"
    using f by (auto simp: leaves_key_def dest: spec[of _ y])
  show ?case
  proof (cases e)
    case None
    from Cons.IH[of z] Cons.prems have "same_at key z (fst (run_seq fs z))" by simp
    with a have "same_at key y (fst (run_seq fs z))" by (rule same_at_trans)
    with f None show ?thesis by simp
  next
    case (Some err)
    with f a show ?thesis by simp
  qed
qed

lemma stable_run_seq_Nil: "stable (run_seq [])"
  by (simp add: stable_def)

lemma stable_run_seq_Cons:
  assumes h: "stable body" and fs: "stable (run_seq fs)"
    and fr: "\<forall>g\<in>set fs. leaves_key key g"
  shows "stable (run_seq (at_key key body # fs))"
  unfolding stable_def
proof
  fix x
  obtain y e where f: "at_key key body x = (y, e)" by (cases "at_key key body x")
  from stable_at_key[OF h] have "at_key key body (fst (at_key key body x)) = at_key key body x"
    by (simp add: stable_def)
  with f have fy: "at_key key body y = (y, e)" by simp
  show "run_seq (at_key key body # fs) (fst (run_seq (at_key key body # fs) x))
          = run_seq (at_key key body # fs) x"
  proof (cases e)
    case (Some err)
    with f fy show ?thesis by simp
  next
    case None
    obtain z e2 where r: "run_seq fs y = (z, e2)" by (cases "run_seq fs y")
    from run_seq_leaves_key[OF fr, of y] r have "same_at key y z" by simp
    with fy None have "at_key key body z = (z, None)" by (simp add: at_key_fixed_frame)
    moreover from fs r have "run_seq fs z = (z, e2)"
      by (metis fst_conv stable_def)
    ultimately show ?thesis using f None r by simp
  qed
qed

lemma stable_assigning: "idempotent_conv conv \<Longrightarrow> stable (assigning conv)"
  by (auto simp: stable_def idempotent_conv_def assigning_def split: sum.splits)


lemma clamp_unit_idem: "clamp_unit (clamp_unit f) = clamp_unit f"
  by (cases f) (auto simp: clamp_unit_def float_min_def float_max_def)

lemma idempotent_to_unit_float: "idempotent_conv (to_unit_float np)"
  by (auto simp: idempotent_conv_def to_unit_float_def py_float_def clamp_unit_idem
      split: sum.splits)

lemma float_overflow_bound_large: "100 < float_overflow_bound"
  by (simp add: float_overflow_bound_def)

lemma truncate_of_int: "truncate (real_of_int n) = n"
  by (simp add: truncate_def)

lemma idempotent_to_percent_int: "idempotent_conv (to_percent_int np)"
proof -
  have "to_percent_int np (JInt m) = Inr (JInt m)" if "0 \<le> m" "m \<le> 100" for m
  proof -
    from that float_overflow_bound_large have "\<not> float_overflow_bound \<le> \<bar>m\<bar>" by simp
    with that show ?thesis
      by (simp add: to_percent_int_def py_float_def int_of_float_def truncate_of_int)
  qed
  then show ?thesis
    by (auto simp: idempotent_conv_def to_percent_int_def split: sum.splits)
qed

lemma idempotent_to_int_at_least: "idempotent_conv (to_int_at_least np lo)"
  by (auto simp: idempotent_conv_def to_int_at_least_def py_int_def split: sum.splits)

lemma idempotent_py_take: "idempotent_conv (py_take n)"
  by (auto simp: idempotent_conv_def py_take_def split: json.splits)

lemma iterate_length: "length (fst (iterate body xs)) = length xs"
  by (induction xs) (auto split: prod.splits option.splits)

lemma iterate_stable:
  assumes "stable body"
  shows "iterate body (fst (iterate body xs)) = iterate body xs"
proof (induction xs)
  case Nil
  show ?case by simp
next
  case (Cons x xs)
  obtain x' e where b: "body x = (x', e)" by (cases "body x")
  from assms have "body (fst (body x)) = body x" by (simp add: stable_def)
  with b have b': "body x' = (x', e)" by simp
  show ?case
  proof (cases e)
    case (Some err)
    with b b' show ?thesis by simp
  next
    case None
    obtain xs' e2 where r: "iterate body xs = (xs', e2)" by (cases "iterate body xs")
    with Cons.IH have "iterate body xs' = (xs', e2)" by simp
    with b b' None r show ?thesis by simp
  qed
qed

lemma stable_for_each:
  assumes "stable body"
  shows "stable (for_each body)"
  unfolding stable_def
proof
  fix x
  show "for_each body (fst (for_each body x)) = for_each body x"
  proof (cases x)
    case (JList xs)
    obtain xs' e where r: "iterate body xs = (xs', e)" by (cases "iterate body xs")
    with iterate_stable[OF assms, of xs] have "iterate body xs' = (xs', e)" by simp
    with r JList show ?thesis by (simp add: for_each_def)
  qed (simp_all add: for_each_def)
qed

lemma for_each_shape:
  "py_take n v = Inr v1 \<Longrightarrow> py_take n (fst (for_each body v1)) = Inr (fst (for_each body v1))"
proof (cases v)
  case (JList xs)
  assume "py_take n v = Inr v1"
  with JList have v1: "v1 = JList (take n xs)" by (simp add: py_take_def)
  obtain xs' e where r: "iterate body (take n xs) = (xs', e)"
    by (cases "iterate body (take n xs)")
  have "length (fst (iterate body (take n xs))) \<le> n" by (simp add: iterate_length)
  with r have "length xs' \<le> n" by simp
  with r show ?thesis
    unfolding v1 by (simp add: for_each_def py_take_def)
next
  case (JStr s)
  assume "py_take n v = Inr v1"
  with JStr have "v1 = JStr (take n s)" by (simp add: py_take_def)
  then show ?thesis by (simp add: for_each_def py_take_def)
qed (simp_all add: py_take_def)

lemma stable_take_then_each:
  assumes "stable body"
  shows "stable (take_then_each n body)"
  unfolding stable_def
proof
  fix x
  show "take_then_each n body (fst (take_then_each n body x)) = take_then_each n body x"
  proof (cases "py_take n x")
    case (Inl e)
    then show ?thesis by (simp add: take_then_each_def)
  next
    case (Inr v1)
    from for_each_shape[OF Inr, of body]
    have t: "py_take n (fst (for_each body v1)) = Inr (fst (for_each body v1))" .
    from stable_for_each[OF assms]
    have "for_each body (fst (for_each body v1)) = for_each body v1" by (simp add: stable_def)
    with Inr t show ?thesis by (simp add: take_then_each_def)
  qed
qed

lemmas stable_intros =
  stable_run_seq_Nil stable_run_seq_Cons stable_assigning stable_for_each stable_take_then_each
  idempotent_to_unit_float idempotent_to_percent_int idempotent_to_int_at_least idempotent_py_take

lemma stable_blog_analysis: "stable (sanitize_blog_analysis np)"
  unfolding sanitize_blog_analysis_def
  by (intro stable_intros) (simp_all add: leaves_key_at_key)

lemma stable_keyword_recommendations: "stable (sanitize_keyword_recommendations np)"
  unfolding sanitize_keyword_recommendations_def
  by (intro stable_intros) (simp_all add: leaves_key_at_key)

lemma stable_content_scoring: "stable (sanitize_content_scoring np)"
  unfolding sanitize_content_scoring_def
  by (intro stable_intros) (simp_all add: leaves_key_at_key)

text \<open>
  C9. Sanitising a response that has already been sanitised, for the same schema key,
  gives the same response, for every JSON value and every schema key.
\<close>

theorem sanitize_idempotent:
  "validate_and_sanitize_response np (validate_and_sanitize_response np response_data schema_key)
     schema_key
   = validate_and_sanitize_response np response_data schema_key"
  using stable_blog_analysis[of np] stable_keyword_recommendations[of np]
    stable_content_scoring[of np]
  by (simp add: validate_and_sanitize_response_def stable_def)


lemma example_first_pass:
  "validate_and_sanitize_response example_parser example_response ''keyword_recommendations''
     = example_sanitized"
  by (simp add: validate_and_sanitize_response_def sanitize_keyword_recommendations_def
      example_response_def example_sanitized_def example_parser_def
      at_key_dict take_then_each_def for_each_def py_take_def assigning_def
      to_unit_float_def to_int_at_least_def to_percent_int_def py_float_def py_int_def
      int_of_float_def truncate_def clamp_unit_def float_min_def float_max_def)

theorem sanitize_idempotent_witness:
  "validate_and_sanitize_response example_parser example_response ''keyword_recommendations''
     = example_sanitized \<and>
   validate_and_sanitize_response example_parser example_sanitized ''keyword_recommendations''
     = example_sanitized"
  using sanitize_idempotent [of example_parser example_response "''keyword_recommendations''"]
  by (simp add: example_first_pass)

end
